theory Spec2Isabelle
  imports Complex_Main "HOL-Library.Word" "HOL-Library.Log_Nat" "HOL-Library.Sublist"
begin

section \<open>JavaScript strings\<close>

text \<open>
  A JavaScript string is a sequence of UTF-16 code units. ASCII literals of the source are
  written \<open>str ''...''\<close>; every other literal is written as its code units.
\<close>

type_synonym jsstring = "16 word list"

definition str :: "string \<Rightarrow> jsstring" where
  "str s = map of_char s"

text \<open>
  \<open>String.prototype.toLowerCase\<close>. On a string of ASCII code units it maps \<open>A\<close>..\<open>Z\<close> to
  \<open>a\<close>..\<open>z\<close> and leaves the rest alone. On any other string the result is the host's
  Unicode case mapping, which is not code of this repository: it is the field
  \<open>unicodeLowerCase\<close> of the host.
\<close>

definition ascii_lower :: "16 word \<Rightarrow> 16 word" where
  "ascii_lower c = (if 0x41 \<le> c \<and> c \<le> 0x5A then c + 0x20 else c)"

section \<open>JavaScript numbers\<close>

text \<open>
  A Number is an IEEE 754 binary64 value: NaN, an infinity with its sign, or a finite value
  with its sign (so that \<open>-0\<close> is \<open>Finite True 0\<close>) and its magnitude, a rational
  \<open>m * 2 ^ e\<close> with \<open>m < 2 ^ 53\<close> and \<open>-1074 \<le> e \<le> 971\<close>. The sign is \<open>True\<close> for
  a negative value.
\<close>

datatype number = NaN | Infinity bool | Finite bool rat

definition pow2 :: "int \<Rightarrow> rat" where
  "pow2 e = (if 0 \<le> e then 2 ^ nat e else 1 / 2 ^ nat (- e))"

definition pow10 :: "int \<Rightarrow> rat" where
  "pow10 e = (if 0 \<le> e then 10 ^ nat e else 1 / 10 ^ nat (- e))"

text \<open>The exponent \<open>e\<close> with \<open>2 ^ e \<le> a < 2 ^ (e + 1)\<close>, for a positive \<open>a\<close>.\<close>

definition floor_log2 :: "rat \<Rightarrow> int" where
  "floor_log2 a = (case quotient_of a of (p, q) \<Rightarrow>
     let d = bitlen p - bitlen q in if pow2 d \<le> a then d else d - 1)"

definition round_half_even :: "rat \<Rightarrow> int" where
  "round_half_even r = (let f = \<lfloor>r\<rfloor>; d = r - of_int f in
     if d < 1 / 2 then f else if 1 / 2 < d then f + 1 else if even f then f else f + 1)"

text \<open>
  Rounding of an exact magnitude to binary64, to nearest with ties to even: 53 significant
  bits, subnormals below \<open>2 ^ -1022\<close>, overflow to infinity from \<open>2 ^ 1024\<close>.
\<close>

definition round_double :: "bool \<Rightarrow> rat \<Rightarrow> number" where
  "round_double s a = (if a = 0 then Finite s 0 else
     let e = max (floor_log2 a) (- 1022);
         ulp = pow2 (e - 52);
         v = of_int (round_half_even (a / ulp)) * ulp
     in if pow2 1024 \<le> v then Infinity s else Finite s v)"

definition signed :: "bool \<Rightarrow> rat \<Rightarrow> rat" where
  "signed s a = (if s then - a else a)"

text \<open>The operators \<open>+\<close>, \<open>-\<close>, \<open>*\<close> and \<open>/\<close> on Numbers, and \<open>===\<close>.\<close>

fun number_add :: "number \<Rightarrow> number \<Rightarrow> number" where
  "number_add NaN _ = NaN"
| "number_add _ NaN = NaN"
| "number_add (Infinity s) (Infinity t) = (if s = t then Infinity s else NaN)"
| "number_add (Infinity s) (Finite _ _) = Infinity s"
| "number_add (Finite _ _) (Infinity t) = Infinity t"
| "number_add (Finite s a) (Finite t b) =
     (let r = signed s a + signed t b in
      if r = 0 then Finite (s \<and> t) 0 else round_double (r < 0) \<bar>r\<bar>)"

fun number_negate :: "number \<Rightarrow> number" where
  "number_negate NaN = NaN"
| "number_negate (Infinity s) = Infinity (\<not> s)"
| "number_negate (Finite s a) = Finite (\<not> s) a"

definition number_subtract :: "number \<Rightarrow> number \<Rightarrow> number" where
  "number_subtract x y = number_add x (number_negate y)"

fun number_multiply :: "number \<Rightarrow> number \<Rightarrow> number" where
  "number_multiply NaN _ = NaN"
| "number_multiply _ NaN = NaN"
| "number_multiply (Infinity s) (Infinity t) = Infinity (s \<noteq> t)"
| "number_multiply (Infinity s) (Finite t b) = (if b = 0 then NaN else Infinity (s \<noteq> t))"
| "number_multiply (Finite s a) (Infinity t) = (if a = 0 then NaN else Infinity (s \<noteq> t))"
| "number_multiply (Finite s a) (Finite t b) = round_double (s \<noteq> t) (a * b)"

fun number_divide :: "number \<Rightarrow> number \<Rightarrow> number" where
  "number_divide NaN _ = NaN"
| "number_divide _ NaN = NaN"
| "number_divide (Infinity s) (Infinity t) = NaN"
| "number_divide (Infinity s) (Finite t b) = Infinity (s \<noteq> t)"
| "number_divide (Finite s a) (Infinity t) = Finite (s \<noteq> t) 0"
| "number_divide (Finite s a) (Finite t b) =
     (if b = 0 then (if a = 0 then NaN else Infinity (s \<noteq> t))
      else round_double (s \<noteq> t) (a / b))"

fun number_equal :: "number \<Rightarrow> number \<Rightarrow> bool" where
  "number_equal (Infinity s) (Infinity t) = (s = t)"
| "number_equal (Finite s a) (Finite t b) = (signed s a = signed t b)"
| "number_equal _ _ = False"

text \<open>The Number of an integer (exact below \<open>2 ^ 53\<close> in magnitude).\<close>

definition number_of_int :: "int \<Rightarrow> number" where
  "number_of_int k = Finite (k < 0) \<bar>of_int k\<bar>"

text \<open>
  The magnitudes a finite Number can have: \<open>n * 2 ^ k\<close> with \<open>n < 2 ^ 53\<close> and
  \<open>-1074 \<le> k\<close>, below \<open>2 ^ 1024\<close>.
\<close>

definition binary64 :: "rat \<Rightarrow> bool" where
  "binary64 v = (\<exists>n k. v = of_int n * pow2 k \<and> 0 \<le> n \<and> n < 2 ^ 53 \<and> - 1074 \<le> k
     \<and> v < pow2 1024)"

subsection \<open>Number to string\<close>

text \<open>
  \<open>Number::toString\<close> in radix 10, which a template literal applies to a Number: the
  shortest decimal digits \<open>s\<close> (\<open>k\<close> of them) and the exponent \<open>n\<close> such that
  \<open>s * 10 ^ (n - k)\<close> rounds to the value, the closest such \<open>s\<close> when there are several,
  laid out as plain digits, a decimal fraction or exponent notation by the size of \<open>n\<close>.
\<close>

function dec :: "int \<Rightarrow> jsstring" where
  "dec n = (if n < 10 then [of_int (48 + n)] else dec (n div 10) @ [of_int (48 + n mod 10)])"
  by pat_completeness auto
termination
  by (relation "measure nat") auto

declare dec.simps [simp del]

function digit_count :: "int \<Rightarrow> int" where
  "digit_count n = (if n < 10 then 1 else 1 + digit_count (n div 10))"
  by pat_completeness auto
termination
  by (relation "measure nat") auto

declare digit_count.simps [simp del]

text \<open>The exponent \<open>n\<close> with \<open>10 ^ (n - 1) \<le> a < 10 ^ n\<close>, for a positive \<open>a\<close>.\<close>

definition decimal_exponent :: "rat \<Rightarrow> int" where
  "decimal_exponent a =
     (if 1 \<le> a then digit_count \<lfloor>a\<rfloor>
      else 1 - digit_count (\<lceil>1 / a\<rceil> - 1))"

text \<open>
  The \<open>k\<close>-digit candidates for \<open>a\<close> are the two multiples of \<open>10 ^ (n0 - k)\<close> around it;
  \<open>candidate\<close> returns \<open>(n, s)\<close> for the closer one that rounds to \<open>a\<close>, if any.
\<close>

definition candidate :: "rat \<Rightarrow> int \<Rightarrow> nat \<Rightarrow> (int \<times> int) option" where
  "candidate a n0 k =
     (let scale = pow10 (n0 - int k);
          lo = \<lfloor>a / scale\<rfloor>;
          hi = lo + 1;
          ok_lo = (round_double False (of_int lo * scale) = Finite False a);
          ok_hi = (round_double False (of_int hi * scale) = Finite False a);
          d_lo = a - of_int lo * scale;
          d_hi = of_int hi * scale - a;
          use_hi = (ok_hi \<and>
            (if ok_lo then d_hi < d_lo \<or> (d_hi = d_lo \<and> even hi) else True))
      in if use_hi then (if hi = 10 ^ k then Some (n0 + 1, 10 ^ (k - 1)) else Some (n0, hi))
         else if ok_lo then Some (n0, lo) else None)"

fun shortest :: "rat \<Rightarrow> int \<Rightarrow> nat list \<Rightarrow> (int \<times> int) option" where
  "shortest a n0 [] = None"
| "shortest a n0 (k # ks) =
     (case candidate a n0 k of Some r \<Rightarrow> Some r | None \<Rightarrow> shortest a n0 ks)"

definition format_digits :: "int \<Rightarrow> jsstring \<Rightarrow> jsstring" where
  "format_digits n ds =
     (let k = int (length ds) in
      if k \<le> n \<and> n \<le> 21 then ds @ replicate (nat (n - k)) 0x30
      else if 0 < n \<and> n \<le> 21 then take (nat n) ds @ str ''.'' @ drop (nat n) ds
      else if - 6 < n \<and> n \<le> 0 then str ''0.'' @ replicate (nat (- n)) 0x30 @ ds
      else let e = n - 1;
               ex = str (if e < 0 then ''-'' else ''+'') @ dec \<bar>e\<bar>
           in if k = 1 then ds @ str ''e'' @ ex
              else take 1 ds @ str ''.'' @ drop 1 ds @ str ''e'' @ ex)"

text \<open>Seventeen digits identify every binary64 value, so the search stops there.\<close>

definition positive_to_string :: "rat \<Rightarrow> jsstring" where
  "positive_to_string a =
     (case shortest a (decimal_exponent a) [1 ..< 18] of
        Some (n, s) \<Rightarrow> format_digits n (dec s)
      | None \<Rightarrow> [])"

fun number_to_string :: "number \<Rightarrow> jsstring" where
  "number_to_string NaN = str ''NaN''"
| "number_to_string (Infinity s) = (if s then str ''-Infinity'' else str ''Infinity'')"
| "number_to_string (Finite s a) =
     (if a = 0 then str ''0''
      else if s then str ''-'' @ positive_to_string a else positive_to_string a)"

section \<open>JavaScript values\<close>

text \<open>
  The values the handlers meet: \<open>undefined\<close>, strings, Numbers, and the two kinds of
  object a property read on an object literal can return from \<open>Object.prototype\<close>: a
  built-in function (with its name) and \<open>Object.prototype\<close> itself.
\<close>

datatype jsvalue =
    JSUndefined
  | JSString jsstring
  | JSNumber number
  | JSNativeFunction jsstring
  | JSObjectPrototype

text \<open>Truthiness, the operator \<open>||\<close>, and the string conversion of a template literal.\<close>

fun truthy :: "jsvalue \<Rightarrow> bool" where
  "truthy JSUndefined = False"
| "truthy (JSString s) = (s \<noteq> [])"
| "truthy (JSNumber NaN) = False"
| "truthy (JSNumber (Infinity _)) = True"
| "truthy (JSNumber (Finite _ a)) = (a \<noteq> 0)"
| "truthy (JSNativeFunction _) = True"
| "truthy JSObjectPrototype = True"

definition js_or :: "jsvalue \<Rightarrow> jsvalue \<Rightarrow> jsvalue" where
  "js_or a b = (if truthy a then a else b)"

fun to_string :: "jsvalue \<Rightarrow> jsstring" where
  "to_string JSUndefined = str ''undefined''"
| "to_string (JSString s) = s"
| "to_string (JSNumber x) = number_to_string x"
| "to_string (JSNativeFunction f) = str ''function '' @ f @ str ''() { [native code] }''"
| "to_string JSObjectPrototype = str ''[object Object]''"

text \<open>
  An object literal inherits from \<open>Object.prototype\<close>: reading \<open>obj[key]\<close> returns the own
  property if there is one and the property of \<open>Object.prototype\<close> otherwise. Its function
  properties are listed with the function's name; \<open>__proto__\<close> is an accessor and returns
  the prototype of the object read, which for an object literal is \<open>Object.prototype\<close>.
\<close>

definition object_prototype_functions :: "(jsstring \<times> jsstring) list" where
  "object_prototype_functions =
    [(str ''constructor'', str ''Object''),
     (str ''__defineGetter__'', str ''__defineGetter__''),
     (str ''__defineSetter__'', str ''__defineSetter__''),
     (str ''hasOwnProperty'', str ''hasOwnProperty''),
     (str ''__lookupGetter__'', str ''__lookupGetter__''),
     (str ''__lookupSetter__'', str ''__lookupSetter__''),
     (str ''isPrototypeOf'', str ''isPrototypeOf''),
     (str ''propertyIsEnumerable'', str ''propertyIsEnumerable''),
     (str ''toString'', str ''toString''),
     (str ''valueOf'', str ''valueOf''),
     (str ''toLocaleString'', str ''toLocaleString'')]"

definition object_prototype_get :: "jsstring \<Rightarrow> jsvalue" where
  "object_prototype_get key =
     (case map_of object_prototype_functions key of
        Some f \<Rightarrow> JSNativeFunction f
      | None \<Rightarrow> if key = str ''__proto__'' then JSObjectPrototype else JSUndefined)"

definition get_property :: "(jsstring \<times> jsstring) list \<Rightarrow> jsstring \<Rightarrow> jsvalue" where
  "get_property obj key =
     (case map_of obj key of Some v \<Rightarrow> JSString v | None \<Rightarrow> object_prototype_get key)"

section \<open>The host\<close>

text \<open>
  What the handlers use and this repository does not define: the Unicode case mapping of
  strings that are not ASCII; the time zone database of \<open>Intl\<close> (the named time zones
  beside UTC, each with its offset from UTC in milliseconds at an instant); and the hour
  cycle that \<open>hour12: false\<close> resolves to (editions of ECMA-402 differ: midnight is hour 0
  in \<open>H23\<close> and hour 24 in \<open>H24\<close>).
\<close>

datatype hour_cycle = H23 | H24

record host =
  unicodeLowerCase :: "jsstring \<Rightarrow> jsstring"
  timeZones :: "(jsstring \<times> (int \<Rightarrow> int)) list"
  hourCycle :: hour_cycle

definition toLowerCase :: "host \<Rightarrow> jsstring \<Rightarrow> jsstring" where
  "toLowerCase h s =
     (if list_all (\<lambda>c. c < 0x80) s then map ascii_lower s else unicodeLowerCase h s)"

section \<open>Tool results\<close>

record annotations =
  audience :: "jsstring list"
  priority :: number

datatype content_item =
    TextContent jsstring
  | ImageContent jsstring jsstring annotations

text \<open>
  The object a tool handler returns. \<open>structuredContent\<close> and \<open>isError\<close> are \<open>None\<close> when
  the handler leaves the property out.
\<close>

record tool_result =
  content :: "content_item list"
  structuredContent :: "(jsstring \<times> jsvalue) list option"
  isError :: "bool option"

section \<open>The greeting tool\<close>

text \<open>The table \<open>greetings\<close> of \<open>index.ts\<close>, an object literal of ten own properties.\<close>

definition greetings :: "(jsstring \<times> jsstring) list" where
  "greetings =
    [(str ''korean'', [0xC548, 0xB155, 0xD558, 0xC138, 0xC694]),
     (str ''english'', str ''Hello''),
     (str ''japanese'', [0x3053, 0x3093, 0x306B, 0x3061, 0x306F]),
     (str ''chinese'', [0x4F60, 0x597D]),
     (str ''spanish'', str ''Hola''),
     (str ''french'', str ''Bonjour''),
     (str ''german'', str ''Hallo''),
     (str ''italian'', str ''Ciao''),
     (str ''portuguese'', [0x004F, 0x006C, 0x00E1]),
     (str ''russian'', [0x041F, 0x0440, 0x0438, 0x0432, 0x0435, 0x0442])]"

definition greeting :: "host \<Rightarrow> jsstring \<Rightarrow> jsstring \<Rightarrow> tool_result" where
  "greeting h name language =
     (let lang = toLowerCase h language;
          greetingWord = js_or (get_property greetings lang)
                               (get_property greetings (str ''english''));
          message = to_string greetingWord @ str '', '' @ name @ str ''!'';
          output = [(str ''greeting'', JSString message)]
      in \<lparr>content = [TextContent message],
          structuredContent = Some output,
          isError = None\<rparr>)"

section \<open>The calc tool\<close>

text \<open>The input schema's \<open>z.enum(['+', '-', '*', '/'])\<close>, and the string of each member.\<close>

datatype operator = Plus | Minus | Times | Divide

fun operator_symbol :: "operator \<Rightarrow> jsstring" where
  "operator_symbol Plus = str ''+''"
| "operator_symbol Minus = str ''-''"
| "operator_symbol Times = str ''*''"
| "operator_symbol Divide = str ''/''"

text \<open>The text of the division-by-zero result ("Error: cannot divide by 0").\<close>

definition division_by_zero_text :: jsstring where
  "division_by_zero_text =
     [0xC624, 0xB958, 0x003A, 0x0020, 0x0030, 0xC73C, 0xB85C, 0x0020, 0xB098, 0xB20C, 0x0020,
      0xC218, 0x0020, 0xC5C6, 0xC2B5, 0xB2C8, 0xB2E4]"

text \<open>
  The handler. The \<open>switch\<close> either assigns \<open>result\<close> (\<open>Inr\<close>) or returns early from the
  division by zero (\<open>Inl\<close>); \<open>num2 === 0\<close> is \<open>number_equal num2 (Finite False 0)\<close>.
\<close>

definition calc :: "number \<Rightarrow> number \<Rightarrow> operator \<Rightarrow> tool_result" where
  "calc num1 num2 operator =
     (case (case operator of
              Plus \<Rightarrow> Inr (number_add num1 num2)
            | Minus \<Rightarrow> Inr (number_subtract num1 num2)
            | Times \<Rightarrow> Inr (number_multiply num1 num2)
            | Divide \<Rightarrow>
                if number_equal num2 (Finite False 0)
                then Inl \<lparr>content = [TextContent division_by_zero_text],
                          structuredContent = None,
                          isError = Some True\<rparr>
                else Inr (number_divide num1 num2))
      of Inl early \<Rightarrow> early
       | Inr result \<Rightarrow>
           let message = number_to_string num1 @ str '' '' @ operator_symbol operator @ str '' ''
                 @ number_to_string num2 @ str '' = '' @ number_to_string result
           in \<lparr>content = [TextContent message],
               structuredContent = Some [(str ''result'', JSNumber result)],
               isError = None\<rparr>)"



section \<open>The code\_review prompt\<close>

record prompt_message =
  role :: jsstring
  message_content :: content_item

record prompt_result =
  messages :: "prompt_message list"

text \<open>
  The fixed parts of the template literal: the instruction and its six numbered items, the
  line that introduces the snippet and opens the fence, and the closing fence with the last
  sentence. The glosses translate the Korean text.
\<close>

definition review_items :: jsstring where
  "review_items =
     \<comment> \<open>Please review the following code. Focus on the items below:\<close>
     [0xB2E4, 0xC74C, 0x0020, 0xCF54, 0xB4DC, 0xB97C, 0x0020, 0xB9AC, 0xBDF0, 0xD574, 0xC8FC,
       0xC138, 0xC694, 0x002E, 0x0020, 0xC544, 0xB798, 0x0020, 0xD56D, 0xBAA9, 0xB4E4, 0xC744,
       0x0020, 0xC911, 0xC810, 0xC801, 0xC73C, 0xB85C, 0x0020, 0xAC80, 0xD1A0, 0xD574, 0xC8FC,
       0xC138, 0xC694, 0x003A] @ [0x000A, 0x000A] @
     \<comment> \<open>1. (bug) **Bugs and errors**: check for potential bugs or runtime errors\<close>
     [0x0031, 0x002E, 0x0020, 0xD83D, 0xDC1B, 0x0020, 0x002A, 0x002A, 0xBC84, 0xADF8, 0x0020,
       0xBC0F, 0x0020, 0xC624, 0xB958] @ str ''**: '' @ [0xC7A0, 0xC7AC, 0xC801, 0xC778,
       0x0020, 0xBC84, 0xADF8, 0xB098, 0x0020, 0xB7F0, 0xD0C0, 0xC784, 0x0020, 0xC624, 0xB958,
       0xAC00, 0x0020, 0xC788, 0xB294, 0xC9C0, 0x0020, 0xD655, 0xC778] @ [0x000A] @
     \<comment> \<open>2. (lock) **Security vulnerabilities**: look for security problems\<close>
     [0x0032, 0x002E, 0x0020, 0xD83D, 0xDD12, 0x0020, 0x002A, 0x002A, 0xBCF4, 0xC548, 0x0020,
       0xCDE8, 0xC57D, 0xC810] @ str ''**: '' @ [0xBCF4, 0xC548, 0x0020, 0xAD00, 0xB828,
       0x0020, 0xBB38, 0xC81C, 0xC810, 0xC774, 0x0020, 0xC788, 0xB294, 0xC9C0, 0x0020, 0xAC80,
       0xD1A0] @ [0x000A] @
     \<comment> \<open>3. (lightning) **Performance**: suggest where performance can improve\<close>
     [0x0033, 0x002E, 0x0020, 0x26A1, 0x0020, 0x002A, 0x002A, 0xC131, 0xB2A5, 0x0020, 0xCD5C,
       0xC801, 0xD654] @ str ''**: '' @ [0xC131, 0xB2A5, 0xC744, 0x0020, 0xAC1C, 0xC120,
       0xD560, 0x0020, 0xC218, 0x0020, 0xC788, 0xB294, 0x0020, 0xBD80, 0xBD84, 0x0020, 0xC81C,
       0xC548] @ [0x000A] @
     \<comment> \<open>4. (book) **Readability**: assess readability and maintainability\<close>
     [0x0034, 0x002E, 0x0020, 0xD83D, 0xDCD6, 0x0020, 0x002A, 0x002A, 0xAC00, 0xB3C5,
       0xC131] @ str ''**: '' @ [0xCF54, 0xB4DC, 0xC758, 0x0020, 0xAC00, 0xB3C5, 0xC131,
       0xACFC, 0x0020, 0xC720, 0xC9C0, 0xBCF4, 0xC218, 0xC131, 0x0020, 0xD3C9, 0xAC00] @
       [0x000A] @
     \<comment> \<open>5. (building site) **Design patterns**: suggest better patterns or structure\<close>
     [0x0035, 0x002E, 0x0020, 0xD83C, 0xDFD7, 0xFE0F, 0x0020, 0x002A, 0x002A, 0xC124, 0xACC4,
       0x0020, 0xD328, 0xD134] @ str ''**: '' @ [0xB354, 0x0020, 0xB098, 0xC740, 0x0020,
       0xC124, 0xACC4, 0x0020, 0xD328, 0xD134, 0xC774, 0xB098, 0x0020, 0xAD6C, 0xC870, 0x0020,
       0xC81C, 0xC548] @ [0x000A] @
     \<comment> \<open>6. (check mark) **Best practices**: whether the language's practices are followed\<close>
     [0x0036, 0x002E, 0x0020, 0x2705, 0x0020, 0x002A, 0x002A, 0xBCA0, 0xC2A4, 0xD2B8, 0x0020,
       0xD504, 0xB799, 0xD2F0, 0xC2A4] @ str ''**: '' @ [0xD574, 0xB2F9, 0x0020, 0xC5B8,
       0xC5B4, 0xC758, 0x0020, 0xBAA8, 0xBC94, 0x0020, 0xC0AC, 0xB840, 0x0020, 0xC900, 0xC218,
       0x0020, 0xC5EC, 0xBD80] @ [0x000A, 0x000A]"

definition snippet_open :: jsstring where
  \<comment> \<open>"Code to review:", a line break, three backquotes, a line break\<close>
  "snippet_open =
     [0xB9AC, 0xBDF0, 0xD560, 0x0020, 0xCF54, 0xB4DC, 0x003A, 0x000A, 0x0060, 0x0060, 0x0060,
      0x000A]"

definition snippet_close :: jsstring where
  \<comment> \<open>a line break, three backquotes, two line breaks, "Please give concrete feedback and
     suggestions for improvement on each item."\<close>
  "snippet_close =
     [0x000A, 0x0060, 0x0060, 0x0060, 0x000A, 0x000A, 0xAC01, 0x0020, 0xD56D, 0xBAA9, 0xC5D0,
      0x0020, 0xB300, 0xD574, 0x0020, 0xAD6C, 0xCCB4, 0xC801, 0xC778, 0x0020, 0xD53C, 0xB4DC,
      0xBC31, 0xACFC, 0x0020, 0xAC1C, 0xC120, 0x0020, 0xC81C, 0xC548, 0xC744, 0x0020, 0xD574,
      0xC8FC, 0xC138, 0xC694, 0x002E]"

text \<open>The sentence naming the language: "This code is written in L." and two line breaks.\<close>

definition language_sentence :: "jsstring \<Rightarrow> jsstring" where
  "language_sentence language =
     [0xC774, 0x0020, 0xCF54, 0xB4DC, 0xB294, 0x0020] @ language @
     [0xB85C, 0x0020, 0xC791, 0xC131, 0xB418, 0xC5C8, 0xC2B5, 0xB2C8, 0xB2E4, 0x002E, 0x000A,
      0x000A]"

text \<open>
  The handler. \<open>language\<close> is optional: \<open>None\<close> is \<open>undefined\<close>. The conditional tests its
  truthiness, so the empty string takes the same branch as \<open>undefined\<close>.
\<close>

definition optional :: "jsstring option \<Rightarrow> jsvalue" where
  "optional v = (case v of None \<Rightarrow> JSUndefined | Some s \<Rightarrow> JSString s)"

definition code_review :: "jsstring \<Rightarrow> jsstring option \<Rightarrow> prompt_result" where
  "code_review code language =
     (let langInfo = (if truthy (optional language)
                      then language_sentence (to_string (optional language)) else [])
      in \<lparr>messages =
           [\<lparr>role = str ''user'',
             message_content =
               TextContent (review_items @ langInfo @ snippet_open @ code @ snippet_close)\<rparr>]\<rparr>)"

section \<open>The server-info resource\<close>

subsection \<open>JSON.stringify\<close>

text \<open>
  \<open>QuoteJSONString\<close>: the two-character escapes, \<open>\u00XX\<close> (lower-case hexadecimal) for the
  other control characters and for a surrogate that is not part of a pair, every other code
  unit as it is. The code unit \<open>0x5C\<close> is the backslash and \<open>0x22\<close> the double quote.
\<close>

definition hex_digit :: "nat \<Rightarrow> 16 word" where
  "hex_digit d = (if d < 10 then of_nat (48 + d) else of_nat (87 + d))"

definition unicode_escape :: "16 word \<Rightarrow> jsstring" where
  "unicode_escape c =
     (let n = unat c in
      [0x5C, 0x75] @ map hex_digit [n div 4096, n div 256 mod 16, n div 16 mod 16, n mod 16])"

definition quote_unit :: "16 word \<Rightarrow> jsstring" where
  "quote_unit c =
     (if c = 0x08 then [0x5C, 0x62]
      else if c = 0x09 then [0x5C, 0x74]
      else if c = 0x0A then [0x5C, 0x6E]
      else if c = 0x0C then [0x5C, 0x66]
      else if c = 0x0D then [0x5C, 0x72]
      else if c = 0x22 then [0x5C, 0x22]
      else if c = 0x5C then [0x5C, 0x5C]
      else if c < 0x20 then unicode_escape c
      else [c])"

definition leading_surrogate :: "16 word \<Rightarrow> bool" where
  "leading_surrogate c = (0xD800 \<le> c \<and> c \<le> 0xDBFF)"

definition trailing_surrogate :: "16 word \<Rightarrow> bool" where
  "trailing_surrogate c = (0xDC00 \<le> c \<and> c \<le> 0xDFFF)"

fun quote_units :: "jsstring \<Rightarrow> jsstring" where
  "quote_units [] = []"
| "quote_units [c] =
     (if leading_surrogate c \<or> trailing_surrogate c then unicode_escape c else quote_unit c)"
| "quote_units (c # d # cs) =
     (if leading_surrogate c \<and> trailing_surrogate d then c # d # quote_units cs
      else if leading_surrogate c \<or> trailing_surrogate c
        then unicode_escape c @ quote_units (d # cs)
      else quote_unit c @ quote_units (d # cs))"

definition QuoteJSONString :: "jsstring \<Rightarrow> jsstring" where
  "QuoteJSONString s = [0x22] @ quote_units s @ [0x22]"

text \<open>
  \<open>SerializeJSONProperty\<close>: \<open>None\<close> for a value that JSON leaves out (\<open>undefined\<close>, a
  function); a Number that is not finite is \<open>null\<close>; \<open>Object.prototype\<close> has no enumerable
  property of its own.
\<close>

fun SerializeJSONProperty :: "jsvalue \<Rightarrow> jsstring option" where
  "SerializeJSONProperty JSUndefined = None"
| "SerializeJSONProperty (JSString s) = Some (QuoteJSONString s)"
| "SerializeJSONProperty (JSNumber (Finite s a)) = Some (number_to_string (Finite s a))"
| "SerializeJSONProperty (JSNumber _) = Some (str ''null'')"
| "SerializeJSONProperty (JSNativeFunction _) = None"
| "SerializeJSONProperty JSObjectPrototype = Some (str ''{}'')"

fun join :: "jsstring \<Rightarrow> jsstring list \<Rightarrow> jsstring" where
  "join sep [] = []"
| "join sep [x] = x"
| "join sep (x # y # ys) = x @ sep @ join sep (y # ys)"

text \<open>
  \<open>JSON.stringify(obj, null, space)\<close> for an object of string and number properties, none
  of whose keys is an array index, with a numeric \<open>space\<close>: the properties in the order of
  the literal, each on a line of its own indented by \<open>space\<close> blanks (ten at most).
\<close>

definition JSON_stringify :: "(jsstring \<times> jsvalue) list \<Rightarrow> nat \<Rightarrow> jsstring" where
  "JSON_stringify obj space =
     (let gap = replicate (min space 10) 0x20;
          members = List.map_filter
            (\<lambda>(k, v). map_option
               (\<lambda>p. QuoteJSONString k @ str '':'' @ (if gap = [] then [] else str '' '') @ p)
               (SerializeJSONProperty v)) obj
      in if members = [] then str ''{}''
         else if gap = [] then str ''{'' @ join (str '','') members @ str ''}''
         else str ''{'' @ [0x0A] @ gap @ join (str '','' @ [0x0A] @ gap) members
              @ [0x0A] @ str ''}'')"

subsection \<open>The handler\<close>

record url =
  href :: jsstring

record resource_contents =
  uri :: jsstring
  mimeType :: jsstring
  text' :: jsstring

record resource_result =
  contents :: "resource_contents list"

definition serverInfo :: "(jsstring \<times> jsvalue) list" where
  "serverInfo =
    [(str ''name'', JSString (str ''My MCP Server'')),
     (str ''version'', JSString (str ''1.0.0'')),
     (str ''status'', JSString (str ''running'')),
     (str ''uptime'', JSString (str ''72 hours 35 minutes'')),
     (str ''cpu_usage'', JSString (str ''23.5%'')),
     (str ''memory_usage'', JSString (str ''1.2GB / 8GB'')),
     (str ''disk_usage'', JSString (str ''45.2GB / 256GB'')),
     (str ''active_connections'', JSNumber (Finite False 142)),
     (str ''requests_per_minute'', JSNumber (Finite False 1250)),
     (str ''environment'', JSString (str ''production'')),
     (str ''region'', JSString (str ''ap-northeast-2'')),
     (str ''last_restart'', JSString (str ''2025-11-24T10:30:00Z'')),
     (str ''health_check'', JSString (str ''healthy''))]"

definition server_info :: "url \<Rightarrow> resource_result" where
  "server_info u =
     \<lparr>contents = [\<lparr>uri = href u,
                    mimeType = str ''application/json'',
                    text' = JSON_stringify serverInfo 2\<rparr>]\<rparr>"

section \<open>The current-time tool\<close>

subsection \<open>Intl.DateTimeFormat\<close>

text \<open>
  The options object of the constructor, with the properties the handler sets.
\<close>

record dtf_options =
  timeZone :: jsstring
  year :: "string option"
  month :: "string option"
  day :: "string option"
  hour :: "string option"
  minute :: "string option"
  second :: "string option"
  hour12 :: "bool option"

text \<open>
  A time zone identifier is compared with the names of the database without regard to ASCII
  case; \<open>UTC\<close> is a time zone of every host, with offset 0.
\<close>

definition timeZoneOffset :: "host \<Rightarrow> jsstring \<Rightarrow> (int \<Rightarrow> int) option" where
  "timeZoneOffset h identifier =
     (if map ascii_lower identifier = str ''utc'' then Some (\<lambda>instant. 0)
      else map_option snd
        (find (\<lambda>z. map ascii_lower (fst z) = map ascii_lower identifier) (timeZones h)))"

text \<open>
  The local date and time of a time value (milliseconds since the epoch, shifted by the
  offset): the year, month (from 1) and day of the proleptic Gregorian calendar, and the
  hour, minute and second within the day.
\<close>

definition civil_from_days :: "int \<Rightarrow> int \<times> int \<times> int" where
  "civil_from_days days =
     (let z = days + 719468;
          era = z div 146097;
          doe = z mod 146097;
          yoe = (doe - doe div 1460 + doe div 36524 - doe div 146096) div 365;
          doy = doe - (365 * yoe + yoe div 4 - yoe div 100);
          mp = (5 * doy + 2) div 153;
          d = doy - (153 * mp + 2) div 5 + 1;
          m = (if mp < 10 then mp + 3 else mp - 9);
          y = yoe + era * 400
      in (if m \<le> 2 then y + 1 else y, m, d))"

datatype field = YearField | MonthField | DayField | HourField | MinuteField | SecondField

text \<open>
  The number a field stands for: a year that is not positive is counted back from 1, and in
  the cycle \<open>H24\<close> the hour 0 is 24.
\<close>

fun field_value :: "hour_cycle \<Rightarrow> int \<Rightarrow> field \<Rightarrow> int" where
  "field_value hc t YearField =
     (case civil_from_days (t div 86400000) of (y, m, d) \<Rightarrow> if y \<le> 0 then 1 - y else y)"
| "field_value hc t MonthField = (case civil_from_days (t div 86400000) of (y, m, d) \<Rightarrow> m)"
| "field_value hc t DayField = (case civil_from_days (t div 86400000) of (y, m, d) \<Rightarrow> d)"
| "field_value hc t HourField =
     (let v = t mod 86400000 div 3600000 in if hc = H24 \<and> v = 0 then 24 else v)"
| "field_value hc t MinuteField = t mod 3600000 div 60000"
| "field_value hc t SecondField = t mod 60000 div 1000"

text \<open>
  The digits of a field: as many as the number has for \<open>numeric\<close>; for \<open>2-digit\<close> at least
  two, and the last two when there are more.
\<close>

definition two_digit :: "int \<Rightarrow> jsstring" where
  "two_digit v = (let ds = dec v in
     if length ds < 2 then 0x30 # ds else drop (length ds - 2) ds)"

definition format_field :: "string option \<Rightarrow> int \<Rightarrow> jsstring" where
  "format_field style v = (if style = Some ''2-digit'' then two_digit v else dec v)"

definition field_style :: "dtf_options \<Rightarrow> field \<Rightarrow> string option" where
  "field_style options f =
     (case f of YearField \<Rightarrow> year options | MonthField \<Rightarrow> month options
      | DayField \<Rightarrow> day options | HourField \<Rightarrow> hour options
      | MinuteField \<Rightarrow> minute options | SecondField \<Rightarrow> second options)"

text \<open>
  The pattern of the \<open>ko-KR\<close> locale for the three sets of options the handler uses: the
  date as \<open>y. MM. dd.\<close>, the time of a 24-hour cycle as \<open>HH:mm:ss\<close>, and both with a
  blank between them.
\<close>

datatype pattern_part = Literal jsstring | Field field

definition date_pattern :: "pattern_part list" where
  "date_pattern = [Field YearField, Literal (str ''. ''), Field MonthField, Literal (str ''. ''),
     Field DayField, Literal (str ''.'')]"

definition time_pattern :: "pattern_part list" where
  "time_pattern = [Field HourField, Literal (str '':''), Field MinuteField, Literal (str '':''),
     Field SecondField]"

definition pattern :: "dtf_options \<Rightarrow> pattern_part list" where
  "pattern options =
     (if hour options = None then date_pattern
      else if year options = None then time_pattern
      else date_pattern @ [Literal (str '' '')] @ time_pattern)"

text \<open>
  \<open>new Intl.DateTimeFormat(locales, options)\<close> throws a RangeError for a time zone
  identifier that is not a time zone of the host; the locale and the other options of the
  three formatters are constants the constructor accepts. The formatter it returns holds
  the resolved options, the offset of the time zone and the hour cycle; \<open>format\<close> fills
  the pattern with the digits of the local time.
\<close>

datatype js_error = RangeError

record date_time_format =
  resolvedLocale :: jsstring
  resolvedOptions :: dtf_options
  offsetAt :: "int \<Rightarrow> int"
  resolvedHourCycle :: hour_cycle

definition DateTimeFormat :: "host \<Rightarrow> jsstring \<Rightarrow> dtf_options \<Rightarrow> js_error + date_time_format" where
  "DateTimeFormat h locales options =
     (case timeZoneOffset h (timeZone options) of
        None \<Rightarrow> Inl RangeError
      | Some offset \<Rightarrow>
          Inr \<lparr>resolvedLocale = locales, resolvedOptions = options, offsetAt = offset,
               resolvedHourCycle = hourCycle h\<rparr>)"

definition format_part :: "date_time_format \<Rightarrow> int \<Rightarrow> pattern_part \<Rightarrow> jsstring" where
  "format_part f instant p =
     (case p of
        Literal s \<Rightarrow> s
      | Field fd \<Rightarrow>
          format_field (field_style (resolvedOptions f) fd)
            (field_value (resolvedHourCycle f) (instant + offsetAt f instant) fd))"

definition format :: "date_time_format \<Rightarrow> int \<Rightarrow> jsstring" where
  "format f instant = concat (map (format_part f instant) (pattern (resolvedOptions f)))"

subsection \<open>The handler\<close>

definition dateTimeOptions :: "jsstring \<Rightarrow> dtf_options" where
  "dateTimeOptions timezone =
     \<lparr>timeZone = timezone, year = Some ''numeric'', month = Some ''2-digit'',
      day = Some ''2-digit'', hour = Some ''2-digit'', minute = Some ''2-digit'',
      second = Some ''2-digit'', hour12 = Some False\<rparr>"

definition dateOptions :: "jsstring \<Rightarrow> dtf_options" where
  "dateOptions timezone =
     \<lparr>timeZone = timezone, year = Some ''numeric'', month = Some ''2-digit'',
      day = Some ''2-digit'', hour = None, minute = None, second = None, hour12 = None\<rparr>"

definition timeOptions :: "jsstring \<Rightarrow> dtf_options" where
  "timeOptions timezone =
     \<lparr>timeZone = timezone, year = None, month = None, day = None,
      hour = Some ''2-digit'', minute = Some ''2-digit'', second = Some ''2-digit'',
      hour12 = Some False\<rparr>"

text \<open>
  The texts: a clock emoji and a blank before the time zone, " current time: " after it;
  and "Error: invalid time zone - " before the time zone in the error result.
\<close>

definition clock_prefix :: jsstring where
  "clock_prefix = [0xD83D, 0xDD50, 0x0020]"

definition current_time_label :: jsstring where
  "current_time_label = [0x0020, 0xD604, 0xC7AC, 0x0020, 0xC2DC, 0xAC04, 0x003A, 0x0020]"

definition invalid_timezone_prefix :: jsstring where
  "invalid_timezone_prefix =
     [0xC624, 0xB958, 0x003A, 0x0020, 0xC720, 0xD6A8, 0xD558, 0xC9C0, 0x0020, 0xC54A, 0xC740,
      0x0020, 0xD0C0, 0xC784, 0xC874, 0xC785, 0xB2C8, 0xB2E4, 0x0020, 0x002D, 0x0020]"

text \<open>
  The handler; \<open>now\<close> is the instant \<open>new Date()\<close> reads, in milliseconds since the epoch.
  Whatever the \<open>try\<close> block throws is caught and answered with the error result.
\<close>

definition invalid_timezone :: "jsstring \<Rightarrow> tool_result" where
  "invalid_timezone timezone =
     \<lparr>content = [TextContent (invalid_timezone_prefix @ timezone)],
      structuredContent = None,
      isError = Some True\<rparr>"

definition current_time :: "host \<Rightarrow> int \<Rightarrow> jsstring \<Rightarrow> tool_result" where
  "current_time h now timezone =
     (case DateTimeFormat h (str ''ko-KR'') (dateTimeOptions timezone) of
        Inl error \<Rightarrow> invalid_timezone timezone
      | Inr dateTimeFormatter \<Rightarrow>
     (case DateTimeFormat h (str ''ko-KR'') (dateOptions timezone) of
        Inl error \<Rightarrow> invalid_timezone timezone
      | Inr dateFormatter \<Rightarrow>
     (case DateTimeFormat h (str ''ko-KR'') (timeOptions timezone) of
        Inl error \<Rightarrow> invalid_timezone timezone
      | Inr timeFormatter \<Rightarrow>
          let datetime = format dateTimeFormatter now;
              date = format dateFormatter now;
              time = format timeFormatter now;
              message = clock_prefix @ timezone @ current_time_label @ datetime;
              output = [(str ''timezone'', JSString timezone),
                        (str ''datetime'', JSString datetime),
                        (str ''date'', JSString date),
                        (str ''time'', JSString time)]
          in \<lparr>content = [TextContent message],
              structuredContent = Some output,
              isError = None\<rparr>)))"

section \<open>The generate-image tool\<close>

subsection \<open>Base64\<close>

text \<open>
  \<open>Buffer.from(arrayBuffer).toString('base64')\<close>: three bytes at a time as four characters
  of the alphabet, the last group padded with \<open>=\<close> (\<open>0x3D\<close>).
\<close>

definition base64_alphabet :: jsstring where
  "base64_alphabet = str ''ABCDEFGHIJKLMNOPQRSTUVWXYZabcdefghijklmnopqrstuvwxyz0123456789+/''"

definition sextet :: "nat \<Rightarrow> 16 word" where
  "sextet n = base64_alphabet ! n"

fun base64 :: "8 word list \<Rightarrow> jsstring" where
  "base64 [] = []"
| "base64 [a] =
     (let x = unat a in [sextet (x div 4), sextet (x mod 4 * 16), 0x3D, 0x3D])"
| "base64 [a, b] =
     (let x = unat a; y = unat b in
      [sextet (x div 4), sextet (x mod 4 * 16 + y div 16), sextet (y mod 16 * 4), 0x3D])"
| "base64 (a # b # c # rest) =
     (let x = unat a; y = unat b; z = unat c in
      [sextet (x div 4), sextet (x mod 4 * 16 + y div 16), sextet (y mod 16 * 4 + z div 64),
       sextet (z mod 64)] @ base64 rest)"

subsection \<open>The outbound call\<close>

text \<open>
  \<open>createServer\<close> builds the client from the configured credential. A call of
  \<open>hfClient.textToImage\<close> is the client and the argument object; the service outside the
  repository answers it with the bytes of the image (the Blob read by \<open>arrayBuffer\<close>) or
  with a rejection. What a rejection throws is either an instance of \<open>Error\<close>, with its
  \<open>message\<close>, or any other value.
\<close>

record config =
  hfToken :: jsstring

record inference_client =
  accessToken :: jsstring

definition InferenceClient :: "jsstring \<Rightarrow> inference_client" where
  "InferenceClient token = \<lparr>accessToken = token\<rparr>"

record text_to_image_args =
  provider :: jsstring
  model :: jsstring
  inputs :: jsstring
  num_inference_steps :: number

record outbound_call =
  client :: inference_client
  arguments :: text_to_image_args

datatype thrown = ErrorInstance jsstring | NonError jsvalue

type_synonym image_service = "outbound_call \<Rightarrow> thrown + 8 word list"

text \<open>The texts: "Image generation error: " and "unknown error".\<close>

definition image_error_prefix :: jsstring where
  "image_error_prefix =
     [0xC774, 0xBBF8, 0xC9C0, 0x0020, 0xC0DD, 0xC131, 0x0020, 0xC624, 0xB958, 0x003A, 0x0020]"

definition unknown_error_text :: jsstring where
  "unknown_error_text = [0xC54C, 0x0020, 0xC218, 0x0020, 0xC5C6, 0xB294, 0x0020, 0xC624, 0xB958]"

text \<open>
  The handler returns the calls it issued together with its result. The literal \<open>0.9\<close> is
  the binary64 value nearest to nine tenths.
\<close>

definition generate_image ::
  "config \<Rightarrow> image_service \<Rightarrow> jsstring \<Rightarrow> outbound_call list \<times> tool_result" where
  "generate_image cfg service prompt =
     (let hfClient = InferenceClient (hfToken cfg);
          request = \<lparr>client = hfClient,
                     arguments = \<lparr>provider = str ''auto'',
                                  model = str ''black-forest-labs/FLUX.1-schnell'',
                                  inputs = prompt,
                                  num_inference_steps = Finite False 5\<rparr>\<rparr>
      in ([request],
          case service request of
            Inr blob \<Rightarrow>
              let base64Data = base64 blob
              in \<lparr>content = [ImageContent base64Data (str ''image/png'')
                                \<lparr>audience = [str ''user''],
                                 priority = round_double False (9 / 10)\<rparr>],
                  structuredContent = None,
                  isError = None\<rparr>
          | Inl error \<Rightarrow>
              let errorMessage = (case error of
                                    ErrorInstance message \<Rightarrow> message
                                  | NonError _ \<Rightarrow> unknown_error_text)
              in \<lparr>content = [TextContent (image_error_prefix @ errorMessage)],
                  structuredContent = None,
                  isError = Some True\<rparr>))"

text \<open>The description of a failure: the message of an \<open>Error\<close>, the text of any other value.\<close>

fun failure_message :: "thrown \<Rightarrow> jsstring" where
  "failure_message (ErrorInstance message) = message"
| "failure_message (NonError v) = to_string v"

text \<open>The call the handler issues for a configuration and a prompt, for the statements below.\<close>

abbreviation issued_call :: "config \<Rightarrow> jsstring \<Rightarrow> outbound_call" where
  "issued_call cfg prompt \<equiv>
     \<lparr>client = \<lparr>accessToken = hfToken cfg\<rparr>,
      arguments = \<lparr>provider = str ''auto'',
                   model = str ''black-forest-labs/FLUX.1-schnell'',
                   inputs = prompt,
                   num_inference_steps = Finite False 5\<rparr>\<rparr>"

section \<open>Declared output shapes\<close>

text \<open>
  The \<open>outputSchema\<close> of a registration is an object of \<open>z.string()\<close> and \<open>z.number()\<close>
  fields; generate-image declares none. A request is the name of a registered tool with its
  validated arguments.
\<close>

datatype zod_type = ZodString | ZodNumber

type_synonym zod_shape = "(jsstring \<times> zod_type) list"

datatype tool_call =
    GreetingCall jsstring jsstring
  | CalcCall number number operator
  | CurrentTimeCall jsstring
  | GenerateImageCall jsstring

fun outputSchema :: "tool_call \<Rightarrow> zod_shape option" where
  "outputSchema (GreetingCall _ _) = Some [(str ''greeting'', ZodString)]"
| "outputSchema (CalcCall _ _ _) = Some [(str ''result'', ZodNumber)]"
| "outputSchema (CurrentTimeCall _) =
     Some [(str ''timezone'', ZodString), (str ''datetime'', ZodString),
           (str ''date'', ZodString), (str ''time'', ZodString)]"
| "outputSchema (GenerateImageCall _) = None"

fun call_tool :: "host \<Rightarrow> config \<Rightarrow> image_service \<Rightarrow> int \<Rightarrow> tool_call \<Rightarrow> tool_result" where
  "call_tool h cfg service now (GreetingCall name language) = greeting h name language"
| "call_tool h cfg service now (CalcCall num1 num2 operator) = calc num1 num2 operator"
| "call_tool h cfg service now (CurrentTimeCall timezone) = current_time h now timezone"
| "call_tool h cfg service now (GenerateImageCall prompt) =
     snd (generate_image cfg service prompt)"

text \<open>
  What \<open>z.number()\<close> accepts depends on the major version of zod, which the source does not
  fix: version 3 refuses NaN, version 4 refuses NaN and the infinities. \<open>z.string()\<close>
  accepts every string.
\<close>

datatype zod_version = Zod3 | Zod4

fun z_number :: "zod_version \<Rightarrow> number \<Rightarrow> bool" where
  "z_number v NaN = False"
| "z_number Zod3 (Infinity s) = True"
| "z_number Zod4 (Infinity s) = False"
| "z_number v (Finite s a) = True"

fun has_type :: "zod_version \<Rightarrow> zod_type \<Rightarrow> jsvalue \<Rightarrow> bool" where
  "has_type v ZodString (JSString s) = True"
| "has_type v ZodNumber (JSNumber x) = z_number v x"
| "has_type v t x = False"

text \<open>
  An object has a shape when its fields are distinct, are exactly the fields of the shape,
  and each holds a value the declared type accepts.
\<close>

definition field_ok :: "zod_version \<Rightarrow> zod_shape \<Rightarrow> jsstring \<times> jsvalue \<Rightarrow> bool" where
  "field_ok v shape f =
     (case map_of shape (fst f) of Some t \<Rightarrow> has_type v t (snd f) | None \<Rightarrow> False)"

definition has_shape :: "zod_version \<Rightarrow> zod_shape \<Rightarrow> (jsstring \<times> jsvalue) list \<Rightarrow> bool" where
  "has_shape v shape obj =
     (distinct (map fst obj) \<and> set (map fst obj) = set (map fst shape)
      \<and> list_all (field_ok v shape) obj)"

section \<open>A host for the examples\<close>

text \<open>
  It leaves strings that are not ASCII alone, has the time zone \<open>Asia/Seoul\<close> (nine hours
  ahead of UTC) beside UTC, and resolves \<open>hour12: false\<close> to the cycle \<open>H23\<close>.
\<close>

definition example_host :: host where
  "example_host =
     \<lparr>unicodeLowerCase = (\<lambda>s. s),
      timeZones = [(str ''Asia/Seoul'', \<lambda>instant. 32400000)],
      hourCycle = H23\<rparr>"

section \<open>Properties\<close>

subsection \<open>Evaluation of literals\<close>

text \<open>
  The recursive equations of \<open>bitlen\<close>, \<open>dec\<close> and \<open>digit_count\<close> at a numeral, and the
  floor of a quotient of numerals: with them the simplifier computes the rounding and the
  decimal digits of an integer literal.
\<close>

lemma bitlen_numeral: "bitlen (numeral k) = bitlen (numeral k div 2) + 1"
  by (subst compute_bitlen) simp

lemma bitlen_one: "bitlen 1 = 1"
  by (subst compute_bitlen) simp

lemma dec_numeral:
  "dec (numeral k) =
     (if (numeral k :: int) < 10 then [of_int (48 + numeral k)]
      else dec (numeral k div 10) @ [of_int (48 + numeral k mod 10)])"
  by (rule dec.simps)

lemma dec_zero: "dec 0 = [48]"
  by (simp add: dec.simps)

lemma dec_one: "dec 1 = [49]"
  by (simp add: dec.simps)

lemma digit_count_numeral:
  "digit_count (numeral k) =
     (if (numeral k :: int) < 10 then 1 else 1 + digit_count (numeral k div 10))"
  by (rule digit_count.simps)

lemma digit_count_one: "digit_count 1 = 1"
  by (simp add: digit_count.simps)

lemma floor_rat_numeral: "\<lfloor>(numeral a :: rat) / numeral b\<rfloor> = numeral a div numeral b"
  using floor_divide_of_int_eq [of "numeral a" "numeral b", where ?'a = rat] by simp

lemma replicate_two: "replicate 2 x = [x, x]"
  by (simp add: numeral_2_eq_2)

lemmas number_eval = round_double_def floor_log2_def round_half_even_def pow2_def pow10_def
  bitlen_numeral bitlen_one Let_def signed_def floor_rat_numeral

lemmas to_string_eval = positive_to_string_def decimal_exponent_def candidate_def
  format_digits_def dec_numeral dec_zero dec_one digit_count_numeral digit_count_one upt_rec
  str_def

lemma positive_to_string_142: "positive_to_string 142 = str ''142''"
  by (simp add: number_eval to_string_eval)

lemma positive_to_string_1250: "positive_to_string 1250 = str ''1250''"
  by (simp add: number_eval to_string_eval)

text \<open>The same for a quotient of numerals that is not an integer.\<close>

lemma quotient_of_numeral_div:
  "quotient_of (numeral a / numeral b) = Rat.normalize (numeral a, numeral b)"
  by (metis Fract_of_int_quotient of_int_numeral quotient_of_Fract)

lemma quotient_of_one_div:
  "quotient_of (1 / numeral b) = (1, numeral b)"
  by (metis Fract_of_int_quotient of_int_1 of_int_numeral quotient_of_Fract Rat.normalize_def
      coprime_1_left fst_conv snd_conv zero_less_numeral normalize_stable)

lemma gcd_numeral_step:
  "gcd (numeral a) (numeral b :: int) = gcd (numeral b) (numeral a mod numeral b)"
  by (rule gcd_red_int)

lemma ceiling_rat_numeral:
  "\<lceil>(numeral a :: rat) / numeral b\<rceil> = - ((- numeral a) div numeral b)"
  using floor_divide_of_int_eq [of "- numeral a" "numeral b", where ?'a = rat]
  by (simp add: ceiling_def)

lemmas rat_eval = ceiling_rat_numeral quotient_of_numeral_div quotient_of_one_div
  Rat.normalize_def gcd_numeral_step

subsection \<open>Arithmetic on integers\<close>

text \<open>
  An integer of magnitude below \<open>2 ^ 53\<close> is a binary64 value: rounding leaves it alone.
  So the sum, the difference and the product of two integers are the integers' own as long
  as the result stays below \<open>2 ^ 53\<close> in magnitude (a product with a zero factor apart,
  whose sign IEEE 754 takes from the factors).
\<close>

lemma round_half_even_of_int: "round_half_even (of_int n) = n"
  by (simp add: round_half_even_def)

lemma floor_log2_of_int:
  assumes "0 < k"
  shows "floor_log2 (of_int k) = bitlen k - 1"
proof -
  from assms have b: "1 \<le> bitlen k"
    using bitlen_ge_iff_power [of 1 k] by simp
  from bitlen_bounds [OF assms] have "2 ^ nat (bitlen k - 1) \<le> k"
    by simp
  then have "(of_int (2 ^ nat (bitlen k - 1)) :: rat) \<le> of_int k"
    by (simp only: of_int_le_iff)
  then have "pow2 (bitlen k - 1) \<le> of_int k"
    using b by (simp add: pow2_def)
  then show ?thesis
    by (simp add: floor_log2_def bitlen_one)
qed

lemma round_double_of_int:
  assumes "0 < k" and "k < 2 ^ 53"
  shows "round_double s (of_int k) = Finite s (of_int k)"
proof -
  from assms(1) have b1: "1 \<le> bitlen k"
    using bitlen_ge_iff_power [of 1 k] by simp
  from assms(2) have b2: "bitlen k \<le> 53"
    using bitlen_le_iff_power [of k 53] by simp
  define n where "n = nat (53 - bitlen k)"
  have e: "max (floor_log2 (of_int k)) (- 1022) = bitlen k - 1"
    using b1 by (simp add: floor_log2_of_int [OF assms(1)])
  have ulp: "pow2 (bitlen k - 1 - 52) = 1 / 2 ^ n"
    using b2 by (auto simp: pow2_def n_def nat_diff_distrib)
  have scaled: "(of_int k :: rat) / (1 / 2 ^ n) = of_int (k * 2 ^ n)"
    by simp
  have unscaled: "(of_int (k * 2 ^ n) :: rat) * (1 / 2 ^ n) = of_int k"
    by simp
  have "(of_int k :: rat) < of_int (2 ^ 53)"
    using assms(2) by (simp only: of_int_less_iff)
  also have "(of_int (2 ^ 53) :: rat) \<le> pow2 1024"
    by (simp add: pow2_def)
  finally have small: "\<not> pow2 1024 \<le> (of_int k :: rat)"
    by simp
  from assms(1) have nz: "(of_int k :: rat) \<noteq> 0"
    by simp
  show ?thesis
    unfolding round_double_def Let_def e ulp scaled round_half_even_of_int unscaled
    using nz small by simp
qed

lemma signed_of_int: "signed (k < 0) \<bar>of_int k\<bar> = of_int k"
  by (simp add: signed_def)

lemma round_double_abs:
  assumes "k \<noteq> 0" and "\<bar>k\<bar> < 2 ^ 53"
  shows "round_double (k < 0) \<bar>of_int k\<bar> = number_of_int k"
  using assms round_double_of_int [of "\<bar>k\<bar>" "k < 0"]
  by (simp add: number_of_int_def)

lemma round_or_zero:
  assumes "\<bar>k\<bar> < 2 ^ 53" and "k = 0 \<Longrightarrow> \<not> z"
  shows "(if (of_int k :: rat) = 0 then Finite z 0
          else round_double ((of_int k :: rat) < 0) \<bar>of_int k\<bar>) = number_of_int k"
proof (cases "k = 0")
  case True
  with assms(2) show ?thesis
    by (simp add: number_of_int_def)
next
  case False
  with round_double_abs [OF False assms(1)] show ?thesis
    by simp
qed

lemma number_add_int:
  assumes "\<bar>m + n\<bar> < 2 ^ 53"
  shows "number_add (number_of_int m) (number_of_int n) = number_of_int (m + n)"
proof -
  have r: "signed (m < 0) \<bar>of_int m\<bar> + signed (n < 0) \<bar>of_int n\<bar> = (of_int (m + n) :: rat)"
    by (simp add: signed_of_int)
  have "m + n = 0 \<Longrightarrow> \<not> (m < 0 \<and> n < 0)"
    by auto
  from round_or_zero [OF assms this] show ?thesis
    unfolding number_of_int_def [of m] number_of_int_def [of n] number_add.simps Let_def r
    by simp
qed

lemma number_subtract_int:
  assumes "\<bar>m - n\<bar> < 2 ^ 53"
  shows "number_subtract (number_of_int m) (number_of_int n) = number_of_int (m - n)"
proof -
  have "signed (\<not> n < 0) \<bar>of_int n\<bar> = (- of_int n :: rat)"
    by (simp add: signed_def)
  then have r: "signed (m < 0) \<bar>of_int m\<bar> + signed (\<not> n < 0) \<bar>of_int n\<bar>
      = (of_int (m - n) :: rat)"
    by (simp add: signed_of_int)
  have "m - n = 0 \<Longrightarrow> \<not> (m < 0 \<and> \<not> n < 0)"
    by auto
  from round_or_zero [OF assms this] show ?thesis
    unfolding number_subtract_def number_of_int_def [of m] number_of_int_def [of n]
      number_negate.simps number_add.simps Let_def r
    by simp
qed

lemma number_multiply_int:
  assumes "m \<noteq> 0" and "n \<noteq> 0" and "\<bar>m * n\<bar> < 2 ^ 53"
  shows "number_multiply (number_of_int m) (number_of_int n) = number_of_int (m * n)"
proof -
  from assms have nz: "m * n \<noteq> 0"
    by simp
  have sgn: "((m < 0) \<noteq> (n < 0)) = (m * n < 0)"
    using assms(1,2) by (auto simp: mult_less_0_iff)
  have mag: "\<bar>of_int m :: rat\<bar> * \<bar>of_int n\<bar> = \<bar>of_int (m * n)\<bar>"
    by (simp add: abs_mult)
  from round_double_abs [OF nz assms(3)] show ?thesis
    unfolding number_of_int_def [of m] number_of_int_def [of n] number_multiply.simps sgn mag
    by simp
qed

text \<open>
  Outside the integers the arithmetic is binary64's, not the reals': the sum of the Numbers
  written \<open>0.1\<close> and \<open>0.2\<close> is not the Number written \<open>0.3\<close>.
\<close>

lemma binary64_tenths:
  "number_add (round_double False (1 / 10)) (round_double False (2 / 10))
     = Finite False (1351079888211149 / 4503599627370496)
   \<and> round_double False (3 / 10) = Finite False (5404319552844595 / 18014398509481984)"
  by (simp add: number_eval rat_eval)

subsection \<open>Zero\<close>

text \<open>The test \<open>num2 === 0\<close> holds of the two zeros and of nothing else.\<close>

lemma number_equal_zero: "number_equal b (Finite False 0) = (\<exists>s. b = Finite s 0)"
  by (cases b) (auto simp: signed_def)

subsection \<open>Powers of two\<close>

lemma pow2_powi: "pow2 e = 2 powi e"
  by (simp add: pow2_def power_int_def power_one_over inverse_eq_divide)

lemma pow2_pos: "0 < pow2 e"
  by (simp add: pow2_powi)

lemma pow2_add: "pow2 (x + y) = pow2 x * pow2 y"
  by (simp add: pow2_powi power_int_add)

lemma pow2_diff: "pow2 (x - y) = pow2 x / pow2 y"
  by (simp add: pow2_powi power_int_diff)

lemma pow2_mono: "x \<le> y \<Longrightarrow> pow2 x \<le> pow2 y"
  by (simp add: pow2_powi power_int_increasing)

lemma pow2_less_cancel: "pow2 x < pow2 y \<Longrightarrow> x < y"
  using pow2_mono [of y x] by (cases "x < y") auto

lemma pow2_nat: "pow2 (int n) = 2 ^ n"
  by (simp add: pow2_def)

lemma pow2_53: "pow2 53 = 2 ^ 53"
  using pow2_nat [of 53] by simp

lemma bitlen_pow2_bounds:
  assumes "0 < p"
  shows "pow2 (bitlen p - 1) \<le> of_int p" and "(of_int p :: rat) < pow2 (bitlen p)"
proof -
  from assms have b: "1 \<le> bitlen p"
    using bitlen_ge_iff_power [of 1 p] by simp
  from bitlen_bounds [OF assms]
  have lo: "2 ^ nat (bitlen p - 1) \<le> p" and hi: "p < 2 ^ nat (bitlen p)"
    by simp_all
  from lo have "(of_int (2 ^ nat (bitlen p - 1)) :: rat) \<le> of_int p"
    by (simp only: of_int_le_iff)
  then show "pow2 (bitlen p - 1) \<le> of_int p"
    using b by (simp add: pow2_def)
  from hi have "(of_int p :: rat) < of_int (2 ^ nat (bitlen p))"
    by (simp only: of_int_less_iff)
  then show "(of_int p :: rat) < pow2 (bitlen p)"
    using b by (simp add: pow2_def)
qed

lemma floor_log2_bounds:
  assumes "0 < a"
  shows "pow2 (floor_log2 a) \<le> a" and "a < pow2 (floor_log2 a + 1)"
proof -
  obtain p q where pq: "quotient_of a = (p, q)"
    by (cases "quotient_of a")
  then have q: "0 < q" and a: "a = of_int p / of_int q"
    using quotient_of_denom_pos [OF pq] quotient_of_div [OF pq] by simp_all
  from assms a q have p: "0 < p"
    by (simp add: zero_less_divide_iff)
  define d where "d = bitlen p - bitlen q"
  have qpos: "(0 :: rat) < of_int q"
    using q by simp
  have "pow2 (bitlen p - 1) / pow2 (bitlen q) \<le> of_int p / pow2 (bitlen q)"
    using bitlen_pow2_bounds(1) [OF p] pow2_pos [of "bitlen q"]
    by (simp add: divide_right_mono)
  also have "\<dots> \<le> of_int p / of_int q"
    using bitlen_pow2_bounds(2) [OF q] p qpos
    by (intro divide_left_mono) (simp_all add: pow2_pos)
  finally have lower: "pow2 (d - 1) \<le> a"
    by (simp add: a d_def pow2_diff [symmetric] algebra_simps)
  have "of_int p / of_int q < pow2 (bitlen p) / of_int q"
    using bitlen_pow2_bounds(2) [OF p] qpos by (simp add: divide_strict_right_mono)
  also have "\<dots> \<le> pow2 (bitlen p) / pow2 (bitlen q - 1)"
    using bitlen_pow2_bounds(1) [OF q] qpos pow2_pos [of "bitlen q - 1"] pow2_pos [of "bitlen p"]
    by (intro divide_left_mono) simp_all
  finally have upper: "a < pow2 (d + 1)"
    by (simp add: a d_def pow2_diff [symmetric] algebra_simps)
  have fl: "floor_log2 a = (if pow2 d \<le> a then d else d - 1)"
    by (simp add: floor_log2_def pq d_def Let_def)
  show "pow2 (floor_log2 a) \<le> a"
    using lower by (simp add: fl)
  show "a < pow2 (floor_log2 a + 1)"
    using upper by (auto simp: fl)
qed
subsection \<open>Rounding to binary64\<close>

lemma round_half_even_error: "\<bar>of_int (round_half_even r) - r\<bar> \<le> 1 / 2"
proof -
  have "of_int \<lfloor>r\<rfloor> \<le> r" and "r < of_int \<lfloor>r\<rfloor> + 1"
    by linarith+
  then show ?thesis
    by (auto simp: round_half_even_def Let_def)
qed

lemma round_half_even_lower: "of_int N \<le> r \<Longrightarrow> N \<le> round_half_even r"
proof -
  assume "of_int N \<le> r"
  then have "N \<le> \<lfloor>r\<rfloor>"
    by (simp add: le_floor_iff)
  then show ?thesis
    by (auto simp: round_half_even_def Let_def)
qed



lemma pow2_pred: "pow2 (x - 1) = pow2 x / 2"
  using pow2_diff [of x 1] by (simp add: pow2_def)


lemma round_double_exact:
  assumes "0 < a" and "binary64 a"
  shows "round_double s a = Finite s a"
proof -
  from assms(2) obtain n k where a: "a = of_int n * pow2 k" and n53: "n < 2 ^ 53"
    and k: "- 1074 \<le> k" and small: "a < pow2 1024"
    unfolding binary64_def by blast
  define e where "e = max (floor_log2 a) (- 1022)"
  define u where "u = pow2 (e - 52)"
  have upos: "0 < u"
    by (simp add: u_def pow2_pos)
  have "pow2 (floor_log2 a) \<le> a"
    by (rule floor_log2_bounds(1) [OF assms(1)])
  also have "a < of_int (2 ^ 53) * pow2 k"
    unfolding a using n53 pow2_pos [of k]
    by (intro mult_strict_right_mono) (simp_all only: of_int_less_iff)
  also have "\<dots> = pow2 (53 + k)"
    using pow2_add [of 53 k] by (simp add: pow2_53)
  finally have "floor_log2 a < 53 + k"
    by (rule pow2_less_cancel)
  with k have ek: "e - 52 \<le> k"
    by (simp add: e_def)
  define m where "m = nat (k - (e - 52))"
  have "pow2 k = pow2 (e - 52 + int m)"
    using ek by (simp add: m_def)
  also have "\<dots> = u * 2 ^ m"
    by (simp add: pow2_add pow2_nat u_def)
  finally have pk: "pow2 k = u * 2 ^ m" .
  have scaled: "a / u = of_int (n * 2 ^ m)"
    using upos by (simp add: a pk)
  have unscaled: "(of_int (n * 2 ^ m) :: rat) * u = a"
    by (simp add: a pk)
  from assms(1) have nz: "a \<noteq> 0"
    by simp
  from small have "\<not> pow2 1024 \<le> a"
    by simp
  with nz show ?thesis
    unfolding round_double_def Let_def e_def [symmetric] u_def [symmetric] scaled
      round_half_even_of_int unscaled
    by simp
qed



lemma round_half_even_tie:
  assumes "of_int N - 1 / 2 \<le> r" and "even N"
  shows "N \<le> round_half_even r"
proof -
  define f where "f = \<lfloor>r\<rfloor>"
  have f: "of_int f \<le> r" "r < of_int f + 1"
    by (simp_all add: f_def) linarith
  from assms(1) have "of_int (N - 1) \<le> r"
    by simp
  then have low: "N - 1 \<le> f"
    unfolding f_def by (simp add: le_floor_iff)
  show ?thesis
  proof (cases "N \<le> f")
    case True
    then show ?thesis
      unfolding round_half_even_def Let_def f_def [symmetric] by simp
  next
    case False
    with low have eq: "f = N - 1"
      by simp
    then have "odd f"
      using assms(2) by simp
    moreover have "1 / 2 \<le> r - of_int f"
      using assms(1) by (simp add: eq)
    ultimately show ?thesis
      unfolding round_half_even_def Let_def f_def [symmetric] by (simp add: eq)
  qed
qed


lemma pow2_52: "pow2 52 = 2 ^ 52"
  by (simp add: pow2_def)

lemma pow2_succ: "pow2 (x + 1) = 2 * pow2 x"
  using pow2_add [of x 1] by (simp add: pow2_def)

lemma round_double_overflow:
  assumes "0 < a"
  shows "(\<exists>v. round_double s a = Finite s v \<and> a < pow2 1024 - pow2 970)
    \<or> (round_double s a = Infinity s \<and> pow2 1024 - pow2 970 \<le> a)"
proof -
  define e where "e = max (floor_log2 a) (- 1022)"
  define u where "u = pow2 (e - 52)"
  define n where "n = round_half_even (a / u)"
  define v where "v = of_int n * u"
  have upos: "0 < u"
    by (simp add: u_def pow2_pos)
  have rd: "round_double s a = (if pow2 1024 \<le> v then Infinity s else Finite s v)"
    using assms by (simp add: round_double_def Let_def e_def u_def n_def v_def)
  have p1024: "pow2 1024 = 2 * pow2 1023"
    using pow2_succ [of 1023] by simp
  have p971: "pow2 971 = 2 * pow2 970"
    using pow2_succ [of 970] by simp
  have p1023: "pow2 1024 = 2 ^ 53 * pow2 971"
    using pow2_add [of 53 971] by (simp add: pow2_53)
  show ?thesis
  proof (cases "a < pow2 1024 - pow2 970")
    case True
    have "pow2 (floor_log2 a) \<le> a"
      by (rule floor_log2_bounds(1) [OF assms])
    also have "a < pow2 1024"
      using True pow2_pos [of 970] by linarith
    finally have "floor_log2 a < 1024"
      by (rule pow2_less_cancel)
    then have "e - 52 - 1 \<le> 970"
      by (simp add: e_def)
    then have "pow2 (e - 52 - 1) \<le> pow2 970"
      by (rule pow2_mono)
    then have half: "u / 2 \<le> pow2 970"
      unfolding u_def pow2_pred [of "e - 52"] .
    have "v - a = u * (of_int n - a / u)"
      using upos by (simp add: v_def field_simps)
    then have "\<bar>v - a\<bar> = u * \<bar>of_int n - a / u\<bar>"
      using upos by (simp add: abs_mult)
    also have "\<dots> \<le> u * (1 / 2)"
      using round_half_even_error [of "a / u"] upos
      unfolding n_def by (intro mult_left_mono) simp_all
    finally have "\<bar>v - a\<bar> \<le> u / 2"
      by simp
    with half True have "v < pow2 1024"
      by linarith
    with True rd show ?thesis
      by simp
  next
    case False
    then have big: "pow2 1024 - pow2 970 \<le> a"
      by simp
    have "pow2 970 \<le> pow2 1023"
      by (rule pow2_mono) simp
    with big p1024 have "pow2 1023 \<le> a"
      by linarith
    also have "a < pow2 (floor_log2 a + 1)"
      by (rule floor_log2_bounds(2) [OF assms])
    finally have "1023 < floor_log2 a + 1"
      by (rule pow2_less_cancel)
    then have e: "e = floor_log2 a" and e1023: "1023 \<le> e"
      by (simp_all add: e_def)
    have pe: "pow2 e = of_int (2 ^ 52) * u"
      using pow2_add [of "e - 52" 52] by (simp add: u_def pow2_52)
    have "pow2 1024 \<le> v"
    proof (cases "1024 \<le> e")
      case True
      have "pow2 e \<le> a"
        unfolding e by (rule floor_log2_bounds(1) [OF assms])
      then have "of_int (2 ^ 52) \<le> a / u"
        using upos by (simp add: pe field_simps)
      then have "2 ^ 52 \<le> n"
        unfolding n_def by (rule round_half_even_lower)
      then have "(of_int (2 ^ 52) :: rat) \<le> of_int n"
        by (simp only: of_int_le_iff)
      then have "pow2 e \<le> v"
        unfolding pe v_def using upos by (intro mult_right_mono) simp_all
      moreover have "pow2 1024 \<le> pow2 e"
        using True by (rule pow2_mono)
      ultimately show ?thesis
        by simp
    next
      case False
      with e1023 have "e = 1023"
        by simp
      then have u: "u = pow2 971"
        by (simp add: u_def)
      have "(2 ^ 53 - 1 / 2) * u \<le> a"
        using big by (simp add: u p1023 p971 algebra_simps)
      then have "of_int (2 ^ 53) - 1 / 2 \<le> a / u"
        using upos by (simp add: field_simps)
      then have "2 ^ 53 \<le> n"
        unfolding n_def by (rule round_half_even_tie) simp
      then have "(of_int (2 ^ 53) :: rat) \<le> of_int n"
        by (simp only: of_int_le_iff)
      then have "of_int (2 ^ 53) * u \<le> v"
        unfolding v_def using upos by (intro mult_right_mono) simp_all
      then show ?thesis
        by (simp add: u p1023)
    qed
    with big rd show ?thesis
      by simp
  qed
qed

subsection \<open>The nearest binary64 value\<close>


lemma binary64_of_int:
  assumes "0 \<le> n" and "n < 2 ^ 53"
  shows "binary64 (of_int n)"
proof -
  have "(of_int n :: rat) < of_int (2 ^ 53)"
    using assms(2) by (simp only: of_int_less_iff)
  also have "\<dots> = pow2 53"
    by (simp add: pow2_53)
  also have "\<dots> \<le> pow2 1024"
    by (rule pow2_mono) simp
  finally have "(of_int n :: rat) < pow2 1024" .
  moreover have "(of_int n :: rat) = of_int n * pow2 0"
    by (simp add: pow2_def)
  ultimately show ?thesis
    unfolding binary64_def using assms by (intro exI [of _ n] exI [of _ 0]) simp
qed










subsection \<open>greeting\<close>

text \<open>
  A language whose lower-case form is one of the ten own properties of the table is answered
  with the table's word, and one that is neither in the table nor a property of
  \<open>Object.prototype\<close> is answered with the English word.
\<close>

lemma greetings_truthy: "map_of greetings k = Some w \<Longrightarrow> w \<noteq> []"
  by (auto simp: greetings_def str_def split: if_splits)

lemma greeting_table_word:
  "map_of greetings (toLowerCase h language) = Some word \<Longrightarrow>
   greeting h name language =
     \<lparr>content = [TextContent (word @ str '', '' @ name @ str ''!'')],
      structuredContent =
        Some [(str ''greeting'', JSString (word @ str '', '' @ name @ str ''!''))],
      isError = None\<rparr>"
  using greetings_truthy [of "toLowerCase h language" word]
  by (simp add: greeting_def get_property_def js_or_def Let_def)

lemma greetings_english: "get_property greetings (str ''english'') = JSString (str ''Hello'')"
  by (simp add: get_property_def greetings_def str_def)

lemma greeting_english_fallback:
  assumes "map_of greetings (toLowerCase h language) = None"
    and "object_prototype_get (toLowerCase h language) = JSUndefined"
  shows "greeting h name language =
     \<lparr>content = [TextContent (str ''Hello'' @ str '', '' @ name @ str ''!'')],
      structuredContent =
        Some [(str ''greeting'', JSString (str ''Hello'' @ str '', '' @ name @ str ''!''))],
      isError = None\<rparr>"
proof -
  from assms have "get_property greetings (toLowerCase h language) = JSUndefined"
    by (simp add: get_property_def)
  then show ?thesis
    by (simp add: greeting_def js_or_def greetings_english Let_def)
qed

lemma greeting_korean_example:
  "greeting h (str ''Bob'') (str ''KOREAN'') =
     \<lparr>content = [TextContent ([0xC548, 0xB155, 0xD558, 0xC138, 0xC694] @ str '', Bob!'')],
      structuredContent = Some [(str ''greeting'',
        JSString ([0xC548, 0xB155, 0xD558, 0xC138, 0xC694] @ str '', Bob!''))],
      isError = None\<rparr>"
  by (simp add: greeting_def toLowerCase_def ascii_lower_def js_or_def get_property_def
      greetings_def str_def Let_def)

lemma greeting_klingon_example:
  "greeting h (str ''Bob'') (str ''klingon'') =
     \<lparr>content = [TextContent (str ''Hello, Bob!'')],
      structuredContent = Some [(str ''greeting'', JSString (str ''Hello, Bob!''))],
      isError = None\<rparr>"
  by (simp add: greeting_def toLowerCase_def ascii_lower_def js_or_def get_property_def
      object_prototype_get_def object_prototype_functions_def greetings_def str_def Let_def)

text \<open>
  Claim C1: for every name and language, a language that matches an entry of the table
  without regard to case is answered with that entry's word, and every language outside
  the table with the English word. The second half fails on the code. The language
  \<open>constructor\<close> is not one of the ten entries, yet the handler does not answer with the
  English word: the read \<open>greetings[lang]\<close> finds \<open>Object.prototype.constructor\<close>, a
  function and so truthy, the fallback after \<open>||\<close> is not taken, and the template literal
  prints the function.
\<close>

theorem greeting_constructor_not_english:
  "greeting h (str ''Bob'') (str ''constructor'') =
     \<lparr>content = [TextContent (str ''function Object() { [native code] }, Bob!'')],
      structuredContent = Some [(str ''greeting'',
        JSString (str ''function Object() { [native code] }, Bob!''))],
      isError = None\<rparr>
   \<and> greeting h (str ''Bob'') (str ''constructor'')
     \<noteq> \<lparr>content = [TextContent (str ''Hello, Bob!'')],
        structuredContent = Some [(str ''greeting'', JSString (str ''Hello, Bob!''))],
        isError = None\<rparr>
   \<and> map_of greetings (str ''constructor'') = None"
  by (simp add: greeting_def toLowerCase_def ascii_lower_def js_or_def get_property_def
      object_prototype_get_def object_prototype_functions_def greetings_def str_def Let_def)

text \<open>The same happens for \<open>__proto__\<close>, which reads \<open>Object.prototype\<close> itself.\<close>

lemma greeting_proto_not_english:
  "greeting h (str ''Bob'') (str ''__proto__'') =
     \<lparr>content = [TextContent (str ''[object Object], Bob!'')],
      structuredContent = Some [(str ''greeting'', JSString (str ''[object Object], Bob!''))],
      isError = None\<rparr>"
  by (simp add: greeting_def toLowerCase_def ascii_lower_def js_or_def get_property_def
      object_prototype_get_def object_prototype_functions_def greetings_def str_def Let_def)

subsection \<open>calc\<close>

text \<open>
  Claim C2: for all numbers \<open>a\<close> and \<open>b\<close>, the division of \<open>a\<close> by \<open>b\<close> returns the result
  flagged as an error, with no structured numeric result, when \<open>b\<close> is zero (\<open>+0\<close> or
  \<open>-0\<close>), and a success result with no error flag for every other \<open>b\<close>.
\<close>

theorem calc_division_by_zero:
  "(b = Finite s 0 \<longrightarrow>
      calc a b Divide =
        \<lparr>content = [TextContent division_by_zero_text],
         structuredContent = None,
         isError = Some True\<rparr>)
   \<and> ((\<forall>s. b \<noteq> Finite s 0) \<longrightarrow>
      calc a b Divide =
        \<lparr>content = [TextContent (number_to_string a @ str '' / '' @ number_to_string b
           @ str '' = '' @ number_to_string (number_divide a b))],
         structuredContent = Some [(str ''result'', JSNumber (number_divide a b))],
         isError = None\<rparr>)"
  by (auto simp: calc_def number_equal_zero signed_def str_def)

theorem calc_division_by_zero_witness:
  "calc (Finite False 6) (Finite True 0) Divide =
     \<lparr>content = [TextContent division_by_zero_text],
      structuredContent = None,
      isError = Some True\<rparr>
   \<and> calc (Finite False 6) (Finite False 3) Divide =
     \<lparr>content = [TextContent (str ''6 / 3 = 2'')],
      structuredContent = Some [(str ''result'', JSNumber (Finite False 2))],
      isError = None\<rparr>"
proof -
  have zero: "calc (Finite False 6) (Finite True 0) Divide =
     \<lparr>content = [TextContent division_by_zero_text],
      structuredContent = None,
      isError = Some True\<rparr>"
    using calc_division_by_zero [of "Finite True 0" True "Finite False 6"] by simp
  have "\<forall>s. Finite False 3 \<noteq> Finite s 0"
    by simp
  then have "calc (Finite False 6) (Finite False 3) Divide =
        \<lparr>content = [TextContent (number_to_string (Finite False 6) @ str '' / ''
           @ number_to_string (Finite False 3) @ str '' = ''
           @ number_to_string (number_divide (Finite False 6) (Finite False 3)))],
         structuredContent =
           Some [(str ''result'', JSNumber (number_divide (Finite False 6) (Finite False 3)))],
         isError = None\<rparr>"
    using calc_division_by_zero [of "Finite False 3" False "Finite False 6"] by blast
  moreover have "number_divide (Finite False 6) (Finite False 3) = Finite False 2"
    by (simp add: number_eval)
  moreover have "number_to_string (Finite False 6) = str ''6''"
    "number_to_string (Finite False 3) = str ''3''"
    "number_to_string (Finite False 2) = str ''2''"
    by (simp_all add: number_eval to_string_eval)
  ultimately have "calc (Finite False 6) (Finite False 3) Divide =
     \<lparr>content = [TextContent (str ''6 / 3 = 2'')],
      structuredContent = Some [(str ''result'', JSNumber (Finite False 2))],
      isError = None\<rparr>"
    by (simp add: str_def)
  with zero show ?thesis by simp
qed




text \<open>A quotient that is not an integer, printed as a decimal fraction.\<close>

lemma calc_fraction_example:
  "calc (Finite False 1) (Finite False 8) Divide =
     \<lparr>content = [TextContent (str ''1 / 8 = 0.125'')],
      structuredContent = Some [(str ''result'', JSNumber (Finite False (1 / 8)))],
      isError = None\<rparr>"
  by (simp add: calc_def number_eval to_string_eval rat_eval)

subsection \<open>code\_review\<close>

text \<open>
  Claim C10 as stated: the template returns the fixed instruction with the snippet
  interpolated verbatim, with the sentence naming the language before the snippet whenever a
  language is supplied and without it when the language is absent. It fails for a language
  that is supplied and empty: the conditional tests truthiness, so the result is the one
  for an absent language and the sentence is nowhere in it.
\<close>

theorem code_review_empty_language_counterexample:
  "code_review (str ''x = 1'') (Some []) = code_review (str ''x = 1'') None
   \<and> code_review (str ''x = 1'') (Some []) =
       \<lparr>messages = [\<lparr>role = str ''user'', message_content =
          TextContent (review_items @ snippet_open @ str ''x = 1'' @ snippet_close)\<rparr>]\<rparr>
   \<and> \<not> sublist (language_sentence [])
         (review_items @ snippet_open @ str ''x = 1'' @ snippet_close)"
  by (simp add: code_review_def optional_def review_items_def snippet_open_def
      snippet_close_def language_sentence_def str_def sublist_code)

text \<open>
  Claim C10, amended: for every code string and every optional language, the template
  returns one user message whose text is the fixed instruction, then the sentence naming
  the language when a language is supplied and is not the empty string (nothing when it is
  absent or empty), then the snippet verbatim between the fence lines, then the fixed
  closing sentence. Nothing but concatenation takes place.
\<close>

theorem code_review_text:
  "code_review code language =
     \<lparr>messages = [\<lparr>role = str ''user'', message_content =
        TextContent (review_items
          @ (case language of
               None \<Rightarrow> []
             | Some l \<Rightarrow> if l = [] then [] else language_sentence l)
          @ snippet_open @ code @ snippet_close)\<rparr>]\<rparr>"
  by (cases language) (simp_all add: code_review_def optional_def)

theorem code_review_text_witness:
  "code_review (str ''x = 1'') (Some (str ''python'')) =
     \<lparr>messages = [\<lparr>role = str ''user'', message_content =
        TextContent (review_items @ language_sentence (str ''python'')
          @ snippet_open @ str ''x = 1'' @ snippet_close)\<rparr>]\<rparr>
   \<and> code_review (str ''x = 1'') None =
     \<lparr>messages = [\<lparr>role = str ''user'', message_content =
        TextContent (review_items @ snippet_open @ str ''x = 1'' @ snippet_close)\<rparr>]\<rparr>"
  using code_review_text [of "str ''x = 1''" "Some (str ''python'')"]
    code_review_text [of "str ''x = 1''" None]
  by (simp add: str_def)

subsection \<open>server-info\<close>

text \<open>
  Claim C9: every read of the server-info resource returns the same hardcoded JSON document
  of made-up metrics (uptime, CPU, memory and disk usage, connection counts), whatever the
  input; the handler reads no state. The document is the text below; beside it the contents
  carry the URI that was asked for and the JSON media type.
\<close>

theorem server_info_fixed_document:
  \<open>server_info u =
     \<lparr>contents = [\<lparr>uri = href u, mimeType = str ''application/json'', text' =
        str ''{'' @ [0x0A] @
        str ''  "name": "My MCP Server",'' @ [0x0A] @
        str ''  "version": "1.0.0",'' @ [0x0A] @
        str ''  "status": "running",'' @ [0x0A] @
        str ''  "uptime": "72 hours 35 minutes",'' @ [0x0A] @
        str ''  "cpu_usage": "23.5%",'' @ [0x0A] @
        str ''  "memory_usage": "1.2GB / 8GB",'' @ [0x0A] @
        str ''  "disk_usage": "45.2GB / 256GB",'' @ [0x0A] @
        str ''  "active_connections": 142,'' @ [0x0A] @
        str ''  "requests_per_minute": 1250,'' @ [0x0A] @
        str ''  "environment": "production",'' @ [0x0A] @
        str ''  "region": "ap-northeast-2",'' @ [0x0A] @
        str ''  "last_restart": "2025-11-24T10:30:00Z",'' @ [0x0A] @
        str ''  "health_check": "healthy"'' @ [0x0A] @
        str ''}''\<rparr>]\<rparr>\<close>
  by (simp add: server_info_def JSON_stringify_def serverInfo_def QuoteJSONString_def
      quote_unit_def leading_surrogate_def trailing_surrogate_def List.map_filter_def
      positive_to_string_142 positive_to_string_1250 replicate_two str_def Let_def)

subsection \<open>current-time\<close>

lemma time_zone_utc: "timeZoneOffset h (str ''UTC'') = Some (\<lambda>instant. 0)"
  by (simp add: timeZoneOffset_def str_def ascii_lower_def)

lemma time_zone_unknown:
  assumes "list_all (\<lambda>z. map ascii_lower (fst z) \<noteq> map ascii_lower identifier) (timeZones h)"
    and "map ascii_lower identifier \<noteq> str ''utc''"
  shows "timeZoneOffset h identifier = None"
proof -
  have "find (\<lambda>z. map ascii_lower (fst z) = map ascii_lower identifier) (timeZones h) = None"
    using assms(1) by (auto simp: find_None_iff list_all_iff)
  with assms(2) show ?thesis
    by (simp add: timeZoneOffset_def)
qed

text \<open>
  Claim C4: for every time zone string the handler takes exactly one of two branches. When
  the identifier is a time zone of the host, it returns a success result with the time zone
  and three texts, none of them empty: the date \<open>y. MM. dd.\<close> and the time \<open>HH:mm:ss\<close> of
  the instant in that time zone, and the two with a blank between them. When it is not, it
  returns the result flagged as an error. \<open>UTC\<close> is a time zone of every host, and
  \<open>Not/AZone\<close> is one of no host whose database has no zone of that name.
\<close>

theorem current_time_branches:
  "(\<forall>offset. timeZoneOffset h timezone = Some offset \<longrightarrow>
      (let local = now + offset now;
           date = dec (field_value (hourCycle h) local YearField) @ str ''. ''
             @ two_digit (field_value (hourCycle h) local MonthField) @ str ''. ''
             @ two_digit (field_value (hourCycle h) local DayField) @ str ''.'';
           time = two_digit (field_value (hourCycle h) local HourField) @ str '':''
             @ two_digit (field_value (hourCycle h) local MinuteField) @ str '':''
             @ two_digit (field_value (hourCycle h) local SecondField);
           datetime = date @ str '' '' @ time
       in current_time h now timezone =
            \<lparr>content = [TextContent (clock_prefix @ timezone @ current_time_label @ datetime)],
             structuredContent = Some
               [(str ''timezone'', JSString timezone),
                (str ''datetime'', JSString datetime),
                (str ''date'', JSString date),
                (str ''time'', JSString time)],
             isError = None\<rparr>
          \<and> datetime \<noteq> [] \<and> date \<noteq> [] \<and> time \<noteq> []))
   \<and> (timeZoneOffset h timezone = None \<longrightarrow>
      current_time h now timezone =
        \<lparr>content = [TextContent (invalid_timezone_prefix @ timezone)],
         structuredContent = None,
         isError = Some True\<rparr>)
   \<and> timeZoneOffset h (str ''UTC'') = Some (\<lambda>instant. 0)
   \<and> (list_all (\<lambda>z. map ascii_lower (fst z) \<noteq> str ''not/azone'') (timeZones h) \<longrightarrow>
      timeZoneOffset h (str ''Not/AZone'') = None)"
proof (intro conjI allI impI)
  fix offset
  assume "timeZoneOffset h timezone = Some offset"
  then show "let local = now + offset now;
           date = dec (field_value (hourCycle h) local YearField) @ str ''. ''
             @ two_digit (field_value (hourCycle h) local MonthField) @ str ''. ''
             @ two_digit (field_value (hourCycle h) local DayField) @ str ''.'';
           time = two_digit (field_value (hourCycle h) local HourField) @ str '':''
             @ two_digit (field_value (hourCycle h) local MinuteField) @ str '':''
             @ two_digit (field_value (hourCycle h) local SecondField);
           datetime = date @ str '' '' @ time
       in current_time h now timezone =
            \<lparr>content = [TextContent (clock_prefix @ timezone @ current_time_label @ datetime)],
             structuredContent = Some
               [(str ''timezone'', JSString timezone),
                (str ''datetime'', JSString datetime),
                (str ''date'', JSString date),
                (str ''time'', JSString time)],
             isError = None\<rparr>
          \<and> datetime \<noteq> [] \<and> date \<noteq> [] \<and> time \<noteq> []"
    by (simp add: current_time_def DateTimeFormat_def format_def format_part_def pattern_def
        date_pattern_def time_pattern_def field_style_def format_field_def
        dateTimeOptions_def dateOptions_def timeOptions_def Let_def str_def
        del: field_value.simps)
next
  assume "timeZoneOffset h timezone = None"
  then show "current_time h now timezone =
        \<lparr>content = [TextContent (invalid_timezone_prefix @ timezone)],
         structuredContent = None,
         isError = Some True\<rparr>"
    by (simp add: current_time_def DateTimeFormat_def invalid_timezone_def dateTimeOptions_def)
next
  show "timeZoneOffset h (str ''UTC'') = Some (\<lambda>instant. 0)"
    by (rule time_zone_utc)
next
  assume "list_all (\<lambda>z. map ascii_lower (fst z) \<noteq> str ''not/azone'') (timeZones h)"
  moreover have "map ascii_lower (str ''Not/AZone'') = str ''not/azone''"
    by (simp add: str_def ascii_lower_def)
  moreover have "str ''not/azone'' \<noteq> str ''utc''"
    by (simp add: str_def)
  ultimately show "timeZoneOffset h (str ''Not/AZone'') = None"
    using time_zone_unknown [of "str ''Not/AZone''" h] by simp
qed

text \<open>
  On the example host, at 2025-11-27T00:30:00Z, \<open>UTC\<close> is answered with the three texts and
  \<open>Not/AZone\<close> with the error.
\<close>

theorem current_time_branches_witness:
  "current_time example_host 1764203400000 (str ''UTC'') =
     \<lparr>content = [TextContent (clock_prefix @ str ''UTC'' @ current_time_label
        @ str ''2025. 11. 27. 00:30:00'')],
      structuredContent = Some
        [(str ''timezone'', JSString (str ''UTC'')),
         (str ''datetime'', JSString (str ''2025. 11. 27. 00:30:00'')),
         (str ''date'', JSString (str ''2025. 11. 27.'')),
         (str ''time'', JSString (str ''00:30:00''))],
      isError = None\<rparr>
   \<and> current_time example_host 1764203400000 (str ''Not/AZone'') =
     \<lparr>content = [TextContent (invalid_timezone_prefix @ str ''Not/AZone'')],
      structuredContent = None,
      isError = Some True\<rparr>"
proof -
  have civil: "civil_from_days 20419 = (2025, 11, 27)"
    unfolding civil_from_days_def Let_def by simp
  have fields:
    "field_value H23 1764203400000 YearField = 2025"
    "field_value H23 1764203400000 MonthField = 11"
    "field_value H23 1764203400000 DayField = 27"
    "field_value H23 1764203400000 HourField = 0"
    "field_value H23 1764203400000 MinuteField = 30"
    "field_value H23 1764203400000 SecondField = 0"
    by (simp_all add: civil)
  have digits:
    "dec 2025 = str ''2025''" "two_digit 11 = str ''11''" "two_digit 27 = str ''27''"
    "two_digit 0 = str ''00''" "two_digit 30 = str ''30''"
    by (simp_all add: two_digit_def dec_numeral dec_zero dec_one str_def Let_def)
  have zones: "list_all (\<lambda>z. map ascii_lower (fst z) \<noteq> str ''not/azone'')
      (timeZones example_host)"
    by (simp add: example_host_def str_def ascii_lower_def)
  have hc: "hourCycle example_host = H23"
    by (simp add: example_host_def)
  note branches = current_time_branches [of example_host _ 1764203400000]
  from branches [of "str ''UTC''"]
  have "current_time example_host 1764203400000 (str ''UTC'') =
     \<lparr>content = [TextContent (clock_prefix @ str ''UTC'' @ current_time_label
        @ str ''2025. 11. 27. 00:30:00'')],
      structuredContent = Some
        [(str ''timezone'', JSString (str ''UTC'')),
         (str ''datetime'', JSString (str ''2025. 11. 27. 00:30:00'')),
         (str ''date'', JSString (str ''2025. 11. 27.'')),
         (str ''time'', JSString (str ''00:30:00''))],
      isError = None\<rparr>"
    by (simp add: Let_def hc fields digits del: field_value.simps) (simp add: str_def)
  moreover from branches [of "str ''Not/AZone''"] zones
  have "current_time example_host 1764203400000 (str ''Not/AZone'') =
     \<lparr>content = [TextContent (invalid_timezone_prefix @ str ''Not/AZone'')],
      structuredContent = None,
      isError = Some True\<rparr>"
    by simp
  ultimately show ?thesis
    by simp
qed

subsection \<open>generate-image\<close>

text \<open>The encoding has four characters for every three bytes, the last group padded.\<close>

lemma length_base64: "length (base64 bs) = 4 * ((length bs + 2) div 3)"
proof (induction bs rule: base64.induct)
  case (4 a b c rest)
  have "(length (a # b # c # rest) + 2) div 3 = (length rest + 2) div 3 + 1"
    by simp
  with 4 show ?case
    by (simp add: Let_def)
qed (simp_all add: Let_def)



text \<open>
  Claim C8: for every prompt and every payload the service returns, the image content item
  of the result is labelled \<open>image/png\<close>, whatever the format of the bytes.
\<close>

theorem generate_image_mime_type:
  "service (issued_call cfg prompt) = Inr bytes \<Longrightarrow>
   \<exists>data ann. content (snd (generate_image cfg service prompt)) =
     [ImageContent data (str ''image/png'') ann]"
  by (simp add: generate_image_def InferenceClient_def)

text \<open>The payload of the witness starts as a JPEG file does.\<close>

theorem generate_image_mime_type_witness:
  "\<exists>data ann. content (snd (generate_image \<lparr>hfToken = str ''hf_token''\<rparr>
      (\<lambda>call. Inr [0xFF, 0xD8, 0xFF, 0xE0]) (str ''a cat''))) =
     [ImageContent data (str ''image/png'') ann]"
  using generate_image_mime_type [of "\<lambda>call. Inr [0xFF, 0xD8, 0xFF, 0xE0]"
      "\<lparr>hfToken = str ''hf_token''\<rparr>" "str ''a cat''" "[0xFF, 0xD8, 0xFF, 0xE0]"]
  by simp

text \<open>
  Claim C3 as stated: whenever the outbound call fails, the result is flagged as an error
  and its text contains the message of the failure. It fails when what is thrown is not an
  instance of \<open>Error\<close>: for a rejection with the string \<open>quota exceeded\<close> the text is the
  prefix and "unknown error", and the string is not part of it.
\<close>

theorem generate_image_non_error_counterexample:
  "snd (generate_image \<lparr>hfToken = str ''hf_token''\<rparr>
          (\<lambda>call. Inl (NonError (JSString (str ''quota exceeded'')))) (str ''a cat'')) =
     \<lparr>content = [TextContent (image_error_prefix @ unknown_error_text)],
      structuredContent = None,
      isError = Some True\<rparr>
   \<and> failure_message (NonError (JSString (str ''quota exceeded''))) = str ''quota exceeded''
   \<and> \<not> sublist (str ''quota exceeded'') (image_error_prefix @ unknown_error_text)"
  by (simp add: generate_image_def InferenceClient_def image_error_prefix_def
      unknown_error_text_def str_def sublist_code)

text \<open>
  Claim C3, amended: for every prompt, when the outbound call fails the handler returns a
  result flagged as an error and throws nothing. When the failure is an instance of
  \<open>Error\<close>, the text is the prefix followed by its message, and so contains it; for any
  other thrown value the text is the prefix followed by the fixed words "unknown error".
\<close>

theorem generate_image_failure:
  "(service (issued_call cfg prompt) = Inl (ErrorInstance m) \<longrightarrow>
      snd (generate_image cfg service prompt) =
        \<lparr>content = [TextContent (image_error_prefix @ m)],
         structuredContent = None,
         isError = Some True\<rparr>
      \<and> sublist (failure_message (ErrorInstance m)) (image_error_prefix @ m))
   \<and> (service (issued_call cfg prompt) = Inl (NonError v) \<longrightarrow>
      snd (generate_image cfg service prompt) =
        \<lparr>content = [TextContent (image_error_prefix @ unknown_error_text)],
         structuredContent = None,
         isError = Some True\<rparr>)"
  by (simp add: generate_image_def InferenceClient_def)

theorem generate_image_failure_witness:
  "snd (generate_image \<lparr>hfToken = str ''hf_token''\<rparr>
          (\<lambda>call. Inl (ErrorInstance (str ''Unauthorized''))) (str ''a cat'')) =
     \<lparr>content = [TextContent (image_error_prefix @ str ''Unauthorized'')],
      structuredContent = None,
      isError = Some True\<rparr>
   \<and> sublist (str ''Unauthorized'') (image_error_prefix @ str ''Unauthorized'')
   \<and> snd (generate_image \<lparr>hfToken = str ''hf_token''\<rparr>
          (\<lambda>call. Inl (NonError (JSNumber (Finite False 429)))) (str ''a cat'')) =
     \<lparr>content = [TextContent (image_error_prefix @ unknown_error_text)],
      structuredContent = None,
      isError = Some True\<rparr>"
  using generate_image_failure [of "\<lambda>call. Inl (ErrorInstance (str ''Unauthorized''))"
      "\<lparr>hfToken = str ''hf_token''\<rparr>" "str ''a cat''" "str ''Unauthorized''"
      "JSNumber (Finite False 429)"]
    generate_image_failure [of "\<lambda>call. Inl (NonError (JSNumber (Finite False 429)))"
      "\<lparr>hfToken = str ''hf_token''\<rparr>" "str ''a cat''" "str ''Unauthorized''"
      "JSNumber (Finite False 429)"]
  by simp

subsection \<open>Declared output shapes\<close>

lemma greeting_has_declared_shape:
  "\<exists>obj. structuredContent (greeting h name language) = Some obj
     \<and> has_shape v [(str ''greeting'', ZodString)] obj"
  by (simp add: greeting_def Let_def has_shape_def field_ok_def)

lemma current_time_has_declared_shape:
  assumes "isError (current_time h now timezone) = None"
  shows "\<exists>obj. structuredContent (current_time h now timezone) = Some obj
     \<and> has_shape v [(str ''timezone'', ZodString), (str ''datetime'', ZodString),
          (str ''date'', ZodString), (str ''time'', ZodString)] obj"
  using assms
  by (cases "timeZoneOffset h timezone")
    (auto simp: current_time_def DateTimeFormat_def invalid_timezone_def Let_def
      dateTimeOptions_def dateOptions_def timeOptions_def has_shape_def field_ok_def str_def)

lemma calc_has_declared_shape:
  assumes "isError (calc num1 num2 operator) = None"
  shows "\<exists>r. structuredContent (calc num1 num2 operator) = Some [(str ''result'', JSNumber r)]
     \<and> has_shape v [(str ''result'', ZodNumber)] [(str ''result'', JSNumber r)] = z_number v r"
  using assms
  by (cases operator) (auto simp: calc_def Let_def has_shape_def field_ok_def split: if_splits)

lemma binary64_pow2_1023: "binary64 (pow2 1023)"
proof -
  have "pow2 1023 < pow2 1024"
    using pow2_succ [of 1023] pow2_pos [of 1023] by simp
  then show ?thesis
    unfolding binary64_def by (intro exI [of _ 1] exI [of _ 1023]) simp
qed

lemma multiply_overflow:
  "number_multiply (Finite False (pow2 1023)) (Finite False 2) = Infinity False"
proof -
  have "pow2 1023 * 2 = pow2 1024"
    using pow2_succ [of 1023] by simp
  moreover have "pow2 1024 - pow2 970 \<le> pow2 1024"
    using pow2_pos [of 970] by simp
  moreover have "0 < pow2 1024"
    by (rule pow2_pos)
  ultimately show ?thesis
    using round_double_overflow [of "pow2 1024" False] by auto
qed

text \<open>
  Claim C5: for every request to a tool that declares an output shape (greeting, calc,
  current-time), whenever the handler returns without the error flag, the structured output
  of the result has exactly the fields of the declared shape, each with a value of the
  declared type. It holds for greeting and current-time. It does not for calc, whose
  declared \<open>result\<close> is a \<open>z.number()\<close>: the product of \<open>2 ^ 1023\<close> and 2, two numbers
  that \<open>z.number()\<close> accepts in either version of zod, is returned as a success with the
  result \<open>Infinity\<close>, which version 4 refuses; and the difference of \<open>Infinity\<close> and
  \<open>Infinity\<close>, which version 3 accepts as arguments, is returned as a success with the
  result \<open>NaN\<close>, which every version refuses.
\<close>

theorem calc_result_outside_declared_shape:
  "outputSchema (CalcCall (Finite False (pow2 1023)) (Finite False 2) Times) =
     Some [(str ''result'', ZodNumber)]
   \<and> binary64 (pow2 1023) \<and> binary64 2
   \<and> z_number Zod4 (Finite False (pow2 1023)) \<and> z_number Zod4 (Finite False 2)
   \<and> isError (call_tool h cfg service now
        (CalcCall (Finite False (pow2 1023)) (Finite False 2) Times)) = None
   \<and> structuredContent (call_tool h cfg service now
        (CalcCall (Finite False (pow2 1023)) (Finite False 2) Times)) =
      Some [(str ''result'', JSNumber (Infinity False))]
   \<and> \<not> has_shape Zod4 [(str ''result'', ZodNumber)]
        [(str ''result'', JSNumber (Infinity False))]
   \<and> outputSchema (CalcCall (Infinity False) (Infinity False) Minus) =
     Some [(str ''result'', ZodNumber)]
   \<and> z_number Zod3 (Infinity False)
   \<and> isError (call_tool h cfg service now
        (CalcCall (Infinity False) (Infinity False) Minus)) = None
   \<and> structuredContent (call_tool h cfg service now
        (CalcCall (Infinity False) (Infinity False) Minus)) =
      Some [(str ''result'', JSNumber NaN)]
   \<and> \<not> has_shape Zod3 [(str ''result'', ZodNumber)] [(str ''result'', JSNumber NaN)]"
proof -
  have two: "binary64 2"
    using binary64_of_int [of 2] by simp
  have "number_subtract (Infinity False) (Infinity False) = NaN"
    by (simp add: number_subtract_def)
  then show ?thesis
    using two binary64_pow2_1023 multiply_overflow
    by (simp add: calc_def has_shape_def field_ok_def del: number_multiply.simps)
qed

end
